theory Spec2Isabelle
  imports Complex_Main "HOL-Library.Word"
begin

section \<open>Numbers and strings\<close>

text \<open>
  The engine is the hook \<open>useLipSyncEngine\<close> with the module-level functions it calls.
  A JavaScript number is modelled as a \<^typ>\<open>real\<close>, so \<open>Math.sin\<close>, \<open>Math.exp\<close>,
  \<open>Math.sqrt\<close> and \<open>Math.floor\<close> are the mathematical functions and no rounding takes
  place. A JavaScript string is the list of its UTF-16 code units.
\<close>

type_synonym js_string = "16 word list"

definition js :: "string \<Rightarrow> js_string" where
  "js s = map (\<lambda>c. of_nat (of_char c)) s"

text \<open>\<open>clamp(value, min, max) = Math.min(Math.max(value, min), max)\<close>.\<close>

definition clamp :: "real \<Rightarrow> real \<Rightarrow> real \<Rightarrow> real" where
  "clamp v lo hi = min (max v lo) hi"

text \<open>
  \<open>createSeeder(seed)\<close> returns a closure over the private variable \<open>value\<close>,
  initially \<open>seed * 10_000\<close>. The closure is modelled by the content of that variable:
  \<open>createSeeder\<close> gives the initial content, and one call of the closure,
  \<open>nextRandom\<close>, gives the number returned and the new content.
\<close>

definition createSeeder :: "real \<Rightarrow> real" where
  "createSeeder seed = seed * 10000"

definition nextRandom :: "real \<Rightarrow> real \<times> real" where
  "nextRandom v = (let v' = sin (v + 0.12345) * 43758.5453 in (v' - of_int \<lfloor>v'\<rfloor>, v'))"

text \<open>
  The code units matched by the regular expression class \<open>\s\<close> and stripped by
  \<open>String.prototype.trim\<close>: the white space and line terminator code points.
\<close>

definition isWhiteSpace :: "16 word \<Rightarrow> bool" where
  "isWhiteSpace c =
     (c \<in> {0x09, 0x0A, 0x0B, 0x0C, 0x0D, 0x20, 0xA0, 0x1680, 0x2028, 0x2029, 0x202F,
            0x205F, 0x3000, 0xFEFF}
      \<or> (0x2000 \<le> c \<and> c \<le> 0x200A))"

text \<open>\<open>text.replace(/\s+/g, " ")\<close>: every maximal run of white space becomes one space.\<close>

function replaceWhitespaceRuns :: "js_string \<Rightarrow> js_string" where
  "replaceWhitespaceRuns [] = []"
| "replaceWhitespaceRuns (c # cs) =
     (if isWhiteSpace c then 0x20 # replaceWhitespaceRuns (dropWhile isWhiteSpace cs)
      else c # replaceWhitespaceRuns cs)"
  by pat_completeness auto
termination
  by (relation "measure length") (auto simp: less_Suc_eq_le length_dropWhile_le)

definition trim :: "js_string \<Rightarrow> js_string" where
  "trim s = rev (dropWhile isWhiteSpace (rev (dropWhile isWhiteSpace s)))"

text \<open>\<open>s.split(sep)\<close> for a separator of one code unit; the empty string gives \<open>[""]\<close>.\<close>

fun splitOn :: "16 word \<Rightarrow> js_string \<Rightarrow> js_string list" where
  "splitOn sep [] = [[]]"
| "splitOn sep (c # cs) =
     (if c = sep then [] # splitOn sep cs
      else (case splitOn sep cs of
              [] \<Rightarrow> [[c]]
            | w # ws \<Rightarrow> (c # w) # ws))"

definition getWords :: "js_string \<Rightarrow> js_string list" where
  "getWords text = filter (\<lambda>w. w \<noteq> []) (splitOn 0x20 (trim (replaceWhitespaceRuns text)))"


section \<open>Viseme timeline synthesizer\<close>

text \<open>
  Modelled from the spec: the type \<open>EmotionPreset\<close> is declared in \<open>lib/emotions\<close>, which
  is not among the sources. The record has the four numeric fields the engine reads.
\<close>

record EmotionPreset =
  mouthEnergy :: real
  handAmplitude :: real
  gazeIntensity :: real
  browLift :: real

record VisemeFrame =
  time :: real
  mouth :: real
  width :: real

record Timeline =
  frames :: "VisemeFrame list"
  duration :: real

definition estimateWordDuration :: "EmotionPreset \<Rightarrow> real" where
  "estimateWordDuration emotion =
     (let base = 0.42;
          energyOffset = (mouthEnergy emotion - 0.5) * 0.2;
          handOffset = handAmplitude emotion * 0.05
      in clamp (base - energyOffset - handOffset) 0.28 0.6)"

text \<open>
  \<open>word.match(/[...]/gi)?.length\<close>: the number of code units of the word in the class, or
  \<open>undefined\<close> (here \<open>None\<close>) when there is none, since \<open>match\<close> then returns \<open>null\<close>.
\<close>

definition isVowel :: "16 word \<Rightarrow> bool" where
  "isVowel c = (c \<in> set (js ''aeiouyAEIOUY''))"

definition isStrongConsonant :: "16 word \<Rightarrow> bool" where
  "isStrongConsonant c = (c \<in> set (js ''pbmfvlPBMFVL''))"

definition matchLength :: "(16 word \<Rightarrow> bool) \<Rightarrow> js_string \<Rightarrow> nat option" where
  "matchLength cls word = (let n = length (filter cls word) in if n = 0 then None else Some n)"

text \<open>The fallback loop of \<open>buildVisemeTimeline\<close>, taken when the word list is empty.\<close>

function fallbackLoop :: "nat \<Rightarrow> nat \<Rightarrow> real \<Rightarrow> VisemeFrame list \<Rightarrow> VisemeFrame list" where
  "fallbackLoop i frameCount g acc =
     (if i < frameCount then
        (let t = real i / 60;
             (r1, g1) = nextRandom g;
             (r2, g2) = nextRandom g1
         in fallbackLoop (i + 1) frameCount g2
              (acc @ [\<lparr>time = t, mouth = 0.2 + r1 * 0.15, width = 0.3 + r2 * 0.15\<rparr>]))
      else acc)"
  by pat_completeness auto
termination
  by (relation "measure (\<lambda>(i, frameCount, g, acc). frameCount - i)") auto

text \<open>
  \<open>words.map((word, index) => ...)\<close>: one peak per word. A peak has the fields of a
  \<open>VisemeFrame\<close>. The generator is called twice per word, for \<open>noise\<close> and then for the
  jitter of \<open>time\<close>.
\<close>

fun peaksFrom :: "EmotionPreset \<Rightarrow> real \<Rightarrow> real \<Rightarrow> nat \<Rightarrow> js_string list \<Rightarrow> real
    \<Rightarrow> VisemeFrame list \<times> real" where
  "peaksFrom emotion wordDuration dur index [] g = ([], g)"
| "peaksFrom emotion wordDuration dur index (word # rest) g =
     (let vowelWeight =
            (case matchLength isVowel word of None \<Rightarrow> 1 | Some n \<Rightarrow> real n) / real (length word);
          consonantStrength =
            (case matchLength isStrongConsonant word of None \<Rightarrow> 0 | Some n \<Rightarrow> real n) * 0.15;
          base = 0.45 + (mouthEnergy emotion - 0.5) * 0.4;
          (r1, g1) = nextRandom g;
          noise = (r1 - 0.5) * 0.25;
          (r2, g2) = nextRandom g1;
          peak = \<lparr>time = clamp (real index * wordDuration + r2 * 0.05) 0 dur,
                  mouth = clamp (base + vowelWeight * 0.35 + consonantStrength + noise) 0 1,
                  width = clamp (0.35 + vowelWeight * 0.2 + (mouthEnergy emotion - 0.5)) 0 1\<rparr>;
          (peaks, g') = peaksFrom emotion wordDuration dur (index + 1) rest g2
      in (peak # peaks, g'))"

text \<open>The inner loop \<open>for (const peak of peaks)\<close>, on the running sums of mouth and width.\<close>

fun accumulatePeaks :: "real \<Rightarrow> VisemeFrame list \<Rightarrow> real \<times> real \<Rightarrow> real \<times> real" where
  "accumulatePeaks t [] (m, w) = (m, w)"
| "accumulatePeaks t (peak # peaks) (m, w) =
     (let diff = \<bar>t - time peak\<bar>;
          influence = exp (- (diff ^ 2 / 0.08))
      in accumulatePeaks t peaks (m + mouth peak * influence, w + width peak * influence * 0.7))"

function frameLoop :: "nat \<Rightarrow> nat \<Rightarrow> VisemeFrame list \<Rightarrow> real \<Rightarrow> VisemeFrame list
    \<Rightarrow> VisemeFrame list" where
  "frameLoop frame frameCount peaks g acc =
     (if frame < frameCount then
        (let t = real frame / 60;
             (m, w) = accumulatePeaks t peaks (0.12, 0.3);
             (r1, g1) = nextRandom g;
             m1 = m * (0.55 + r1 * 0.1);
             (r2, g2) = nextRandom g1;
             w1 = w * (0.45 + r2 * 0.1);
             m2 = clamp m1 0.05 1;
             w2 = clamp w1 0.05 0.95
         in frameLoop (frame + 1) frameCount peaks g2
              (acc @ [\<lparr>time = t, mouth = m2, width = w2\<rparr>]))
      else acc)"
  by pat_completeness auto
termination
  by (relation "measure (\<lambda>(frame, frameCount, peaks, g, acc). frameCount - frame)") auto

definition buildVisemeTimeline :: "js_string \<Rightarrow> EmotionPreset \<Rightarrow> real \<Rightarrow> Timeline" where
  "buildVisemeTimeline text emotion seed =
     (let words = getWords text;
          g0 = createSeeder seed
      in if words = [] then
           (let fallbackDuration = 2.5;
                frameCount = nat \<lfloor>fallbackDuration * 60\<rfloor>
            in \<lparr>frames = fallbackLoop 0 frameCount g0 [], duration = fallbackDuration\<rparr>)
         else
           (let wordDuration = estimateWordDuration emotion;
                dur = max (real (length words) * wordDuration + 1.2) 2;
                frameCount = nat \<lfloor>dur * 60\<rfloor>;
                (peaks, g1) = peaksFrom emotion wordDuration dur 0 words g0
            in \<lparr>frames = frameLoop 0 frameCount peaks g1 [], duration = dur\<rparr>))"


section \<open>Timeline sampler\<close>

text \<open>\<open>Array.prototype.findIndex\<close>: the first index whose element satisfies \<open>p\<close>, or \<open>-1\<close>.\<close>

fun findIndex :: "('a \<Rightarrow> bool) \<Rightarrow> 'a list \<Rightarrow> int" where
  "findIndex p [] = - 1"
| "findIndex p (x # xs) =
     (if p x then 0 else (let i = findIndex p xs in if i < 0 then - 1 else i + 1))"

text \<open>
  \<open>sampleViseme\<close> returns an object of which the caller reads \<open>mouth\<close> and \<open>width\<close>: the
  model returns that pair. The frame list is an argument the function only reads.
\<close>

definition sampleViseme :: "VisemeFrame list \<Rightarrow> real \<Rightarrow> real \<times> real" where
  "sampleViseme timeline elapsed =
     (if timeline = [] then (0.1, 0.3)
      else
        (let total = time (last timeline) in
         if elapsed \<ge> total then (mouth (last timeline), width (last timeline))
         else
           (let index = findIndex (\<lambda>frame. time frame \<ge> elapsed) timeline in
            if index \<le> 0 then (mouth (timeline ! 0), width (timeline ! 0))
            else
              (let prev = timeline ! nat (index - 1);
                   current = timeline ! nat index;
                   span = (if time current - time prev = 0 then 1 else time current - time prev);
                   weight = clamp ((elapsed - time prev) / span) 0 1
               in (mouth prev + (mouth current - mouth prev) * weight,
                   width prev + (width current - width prev) * weight)))))"


section \<open>The engine: state\<close>

datatype VoiceMode = TextMode | AudioMode

record LipState =
  mouthOpen :: real
  mouthWidth :: real
  blink :: real
  eyebrowLift :: real
  headYaw :: real
  headPitch :: real
  headRoll :: real
  gazeX :: real
  gazeY :: real
  handLeft :: real
  handRight :: real
  bodySway :: real

definition initialLipState :: LipState where
  "initialLipState =
     \<lparr>mouthOpen = 0.1, mouthWidth = 0.1, blink = 0, eyebrowLift = 0, headYaw = 0,
      headPitch = 0, headRoll = 0, gazeX = 0, gazeY = 0, handLeft = 0, handRight = 0,
      bodySway = 0\<rparr>"

definition EXPORT_DURATION_MS :: real where
  "EXPORT_DURATION_MS = 8000"

text \<open>
  The properties of the hook. \<open>avatar\<close> is left out: the engine never reads it. A callback
  of the hook sees the properties and the hook state of the render that created it; the
  model gives every call the current ones.
\<close>

record UseLipSyncEngineProps =
  emotion :: EmotionPreset
  script :: js_string
  seed :: real

record StartPreviewOptions =
  forceRestart :: bool
  sourceMode :: "VoiceMode option"
  fromExport :: bool

text \<open>
  The objects of the browser the engine holds: the audio element (the file it plays, whether
  it is paused, its position, whether \<open>onended\<close> is set), the state of the audio context,
  and a speech utterance.
\<close>

record AudioElement =
  src :: "nat option"
  paused :: bool
  currentTime :: real
  onended :: bool

datatype AudioContextState = Suspended | Running

record SpeechSynthesisUtterance =
  utteranceText :: js_string
  pitch :: real
  rate :: real
  volume :: real

text \<open>
  \<open>startPreview\<close> is an \<open>async\<close> function with two \<open>await\<close>s, both in audio mode. A call
  that has reached one of them is suspended there until the promise settles; other
  callbacks of the page run in between.
\<close>

datatype SuspendedCall = AwaitContextResume | AwaitAudioPlay

text \<open>
  \<open>exportVideo\<close> is an \<open>async\<close> function as well. A call of it is suspended in
  \<open>await startPreview(...)\<close> while the call of \<open>startPreview\<close> it made is suspended (at the
  \<open>await\<close> given), then on the timer (with its delay in milliseconds), then in
  \<open>await exportPromise\<close>; or the promise it returned has settled: it is fulfilled with a clip
  or with \<open>null\<close>, or it is rejected, because an exception has left the function. Of each call
  the model keeps the promise it created as \<open>exportPromise\<close>, the state of its \<open>MediaRecorder\<close>
  (both absent when the call ended before creating them) and where the call is.
\<close>

datatype Blob = Blob (blobParts: "8 word list list") (blobType: string)

datatype ExportStage =
    AwaitStartPreview SuspendedCall
  | AwaitTimer real
  | AwaitExportPromise
  | Returned "Blob option"
  | Thrown

datatype RecordingState = Inactive | Recording

record ExportCall =
  exportPromise :: "nat option"
  recorder :: "RecordingState option"
  stage :: ExportStage

text \<open>
  The state of one engine instance: the hook state (\<open>lipState\<close> to \<open>ttsSupported\<close>), the
  refs (\<open>modeRef\<close> to \<open>ttsUtteranceRef\<close>, each with the name it has in the source), and
  the part of the browser the engine acts on: whether there is a \<open>window\<close>, whether a new
  audio context starts running, the animation frame callbacks registered and not yet run
  or cancelled (each is \<open>updateLoop\<close>) with the next handle \<open>requestAnimationFrame\<close> will
  return, the utterances queued in \<open>speechSynthesis\<close>, the export promises resolved so far
  with the next promise to be created, the suspended calls of \<open>startPreview\<close> that the page
  made, and the calls of \<open>exportVideo\<close> in the order they were made.
  \<open>exportResolveRef\<close> holds the promise its stored resolver resolves; \<open>analyserRef\<close> and
  \<open>stageCanvasRef\<close> say whether the object is there.
\<close>

record Engine =
  lipState :: LipState
  isSpeaking :: bool
  hasAudioLoaded :: bool
  ttsSupported :: bool
  modeRef :: VoiceMode
  rafRef :: "nat option"
  startTimeRef :: real
  visemeTimelineRef :: "VisemeFrame list"
  visemeDurationRef :: real
  exportResolveRef :: "nat option"
  audioRef :: "AudioElement option"
  objectUrlRef :: "nat option"
  audioContextRef :: "AudioContextState option"
  analyserRef :: bool
  audioDataRef :: "8 word list option"
  stageCanvasRef :: bool
  randomRef :: real
  ttsUtteranceRef :: "SpeechSynthesisUtterance option"
  hasWindow :: bool
  contextStartsRunning :: bool
  frameCallbacks :: "nat list"
  nextFrameId :: nat
  speechQueue :: "SpeechSynthesisUtterance list"
  resolvedPromises :: "nat list"
  nextPromiseId :: nat
  suspendedCalls :: "SuspendedCall list"
  exportCalls :: "ExportCall list"

text \<open>
  The engine after mount and its effects: the audio element exists when there is a window,
  \<open>ttsSupported\<close> is what the browser offers, and \<open>randomRef\<close> holds the generator of
  \<open>seed + emotion.mouthEnergy * 100\<close>.
\<close>

definition initialEngine :: "UseLipSyncEngineProps \<Rightarrow> bool \<Rightarrow> bool \<Rightarrow> bool \<Rightarrow> Engine" where
  "initialEngine props window speech running =
     \<lparr>lipState = initialLipState,
      isSpeaking = False,
      hasAudioLoaded = False,
      ttsSupported = (window \<and> speech),
      modeRef = TextMode,
      rafRef = None,
      startTimeRef = 0,
      visemeTimelineRef = [],
      visemeDurationRef = 0,
      exportResolveRef = None,
      audioRef = (if window then Some \<lparr>src = None, paused = True, currentTime = 0, onended = False\<rparr>
                  else None),
      objectUrlRef = None,
      audioContextRef = None,
      analyserRef = False,
      audioDataRef = None,
      stageCanvasRef = False,
      randomRef = createSeeder (seed props + mouthEnergy (emotion props) * 100),
      ttsUtteranceRef = None,
      hasWindow = window,
      contextStartsRunning = running,
      frameCallbacks = [],
      nextFrameId = 1,
      speechQueue = [],
      resolvedPromises = [],
      nextPromiseId = 0,
      suspendedCalls = [],
      exportCalls = []\<rparr>"


section \<open>The engine: operations\<close>

definition ensureAudioContext :: "Engine \<Rightarrow> AudioContextState option \<times> Engine" where
  "ensureAudioContext s =
     (if \<not> hasWindow s then (None, s)
      else
        (let s1 = (if audioContextRef s = None
                   then s\<lparr>audioContextRef :=
                            Some (if contextStartsRunning s then Running else Suspended)\<rparr>
                   else s)
         in (audioContextRef s1, s1)))"

text \<open>
  \<open>ensureAnalyser\<close> returns the analyser or \<open>null\<close>: here whether there is one. The data
  array has \<open>frequencyBinCount = fftSize / 2 = 1024\<close> bytes.
\<close>

definition ensureAnalyser :: "Engine \<Rightarrow> bool \<times> Engine" where
  "ensureAnalyser s =
     (let (ctx, s1) = ensureAudioContext s;
          audio = audioRef s1
      in if ctx = None \<or> audio = None then (False, s1)
         else
           (let s2 = (if \<not> analyserRef s1
                      then s1\<lparr>audioDataRef := Some (replicate 1024 0), analyserRef := True\<rparr>
                      else s1)
            in (analyserRef s2, s2)))"

definition stopSpeechSynthesis :: "Engine \<Rightarrow> Engine" where
  "stopSpeechSynthesis s =
     (if \<not> ttsSupported s then s
      else
        (case ttsUtteranceRef s of
           None \<Rightarrow> s
         | Some u \<Rightarrow> s\<lparr>speechQueue := [], ttsUtteranceRef := None\<rparr>))"

text \<open>\<open>if (rafRef.current)\<close> holds for a handle other than \<open>0\<close>.\<close>

definition cleanupRAF :: "Engine \<Rightarrow> Engine" where
  "cleanupRAF s =
     (case rafRef s of
        None \<Rightarrow> s
      | Some h \<Rightarrow>
          (if h = 0 then s
           else s\<lparr>frameCallbacks := removeAll h (frameCallbacks s), rafRef := None\<rparr>))"

definition resetLipState :: "Engine \<Rightarrow> Engine" where
  "resetLipState s =
     s\<lparr>lipState := (lipState s)\<lparr>mouthOpen := 0.12, mouthWidth := 0.2, handLeft := 0,
                                  handRight := 0, bodySway := 0\<rparr>\<rparr>"

text \<open>
  \<open>audio.pause()\<close> on an element that is playing rejects its pending \<open>play()\<close> promises: a
  call of \<open>startPreview\<close> suspended on one ends there, and when \<open>exportVideo\<close> awaits that
  call, the exception leaves \<open>exportVideo\<close>, which has no handler around the \<open>await\<close>.
\<close>

definition rejectPlay :: "ExportCall \<Rightarrow> ExportCall" where
  "rejectPlay call =
     (if stage call = AwaitStartPreview AwaitAudioPlay then call\<lparr>stage := Thrown\<rparr> else call)"

definition pauseAudio :: "Engine \<Rightarrow> Engine" where
  "pauseAudio s =
     (case audioRef s of
        None \<Rightarrow> s
      | Some audio \<Rightarrow>
          s\<lparr>audioRef := Some (audio\<lparr>paused := True\<rparr>),
            suspendedCalls := (if paused audio then suspendedCalls s
                               else filter (\<lambda>c. c \<noteq> AwaitAudioPlay) (suspendedCalls s)),
            exportCalls := (if paused audio then exportCalls s
                            else map rejectPlay (exportCalls s))\<rparr>)"

definition shutdownPlayback :: "Engine \<Rightarrow> Engine" where
  "shutdownPlayback s =
     (let s1 = cleanupRAF s;
          s2 = stopSpeechSynthesis s1;
          s3 = (case audioRef s2 of
                  None \<Rightarrow> s2
                | Some audio \<Rightarrow>
                    (let s' = pauseAudio s2
                     in s'\<lparr>audioRef := map_option (\<lambda>a. a\<lparr>currentTime := 0\<rparr>) (audioRef s')\<rparr>));
          s4 = s3\<lparr>isSpeaking := False\<rparr>;
          s5 = (case exportResolveRef s4 of
                  None \<Rightarrow> s4
                | Some p \<Rightarrow> s4\<lparr>resolvedPromises := p # resolvedPromises s4\<rparr>)
      in s5\<lparr>exportResolveRef := None\<rparr>)"

definition requestAnimationFrame :: "Engine \<Rightarrow> nat \<times> Engine" where
  "requestAnimationFrame s =
     (nextFrameId s,
      s\<lparr>frameCallbacks := frameCallbacks s @ [nextFrameId s], nextFrameId := nextFrameId s + 1\<rparr>)"

text \<open>
  \<open>analyser.getByteTimeDomainData(byteArray)\<close> copies the analyser's current samples into
  the array, as many as fit; the array keeps its length.
\<close>

definition getByteTimeDomainData :: "8 word list \<Rightarrow> 8 word list \<Rightarrow> 8 word list" where
  "getByteTimeDomainData samples byteArray =
     map (\<lambda>i. if i < length samples then samples ! i else byteArray ! i) [0..<length byteArray]"

text \<open>
  The second half of \<open>updateLoop\<close>, from \<open>blinkSpeed\<close> to \<open>setLipState\<close>: the pose for the
  mouth signal \<open>(m, w)\<close>, and the content of the generator after its nine calls.
\<close>

definition composePose :: "UseLipSyncEngineProps \<Rightarrow> real \<Rightarrow> real \<Rightarrow> real \<Rightarrow> real
    \<Rightarrow> LipState \<times> real" where
  "composePose props timestamp m w g =
     (let (r1, g1) = nextRandom g;
          blinkSpeed = 0.45 + r1 * 0.35;
          (r2, g2) = nextRandom g1;
          blinkPhase = sin (timestamp / (1300 + r2 * 400) + seed props);
          (r3, g3) = nextRandom g2;
          blinkValue = clamp (\<bar>blinkPhase\<bar> ^ 12 * (0.8 + r3 * 0.4)) 0 1;
          emotionInfluence = handAmplitude (emotion props);
          headYawValue =
            sin (timestamp / (2300 + gazeIntensity (emotion props) * 300) + seed props) * 0.25 +
            m * 0.08 * (gazeIntensity (emotion props) + 0.2);
          (r4, g4) = nextRandom g3;
          headPitchValue =
            sin (timestamp / (3100 + r4 * 500)) * 0.18 + (browLift (emotion props) * 0.15 - 0.05);
          (r5, g5) = nextRandom g4;
          headRollValue = sin (timestamp / (4100 + r5 * 500)) * 0.14;
          (r6, g6) = nextRandom g5;
          gazeXValue =
            sin (timestamp / (1600 + r6 * 600)) * 0.45 * (gazeIntensity (emotion props) + 0.3);
          (r7, g7) = nextRandom g6;
          gazeYValue =
            sin (timestamp / (2100 + r7 * 700) + 0.5) * 0.35 *
            (gazeIntensity (emotion props) + 0.2);
          (r8, g8) = nextRandom g7;
          handLeftValue =
            m * (0.5 + emotionInfluence) + sin (timestamp / 800 + r8 * 2) * 0.2;
          (r9, g9) = nextRandom g8;
          handRightValue =
            m * (0.45 + emotionInfluence * 1.1) + sin (timestamp / 900 + r9 * 2) * 0.25;
          bodySwayValue = sin (timestamp / 2500) * 0.25 + m * 0.2
      in (\<lparr>mouthOpen = m,
           mouthWidth = w,
           blink = blinkValue * (1 - gazeIntensity (emotion props) * 0.2),
           eyebrowLift = browLift (emotion props) + m * 0.25,
           headYaw = headYawValue,
           headPitch = headPitchValue,
           headRoll = headRollValue,
           gazeX = gazeXValue,
           gazeY = gazeYValue,
           handLeft = handLeftValue,
           handRight = handRightValue,
           bodySway = bodySwayValue\<rparr>, g9))"

text \<open>\<open>setLipState\<close> of the composed pose, then \<open>rafRef.current = requestAnimationFrame(updateLoop)\<close>.\<close>

definition publishPose :: "UseLipSyncEngineProps \<Rightarrow> real \<Rightarrow> real \<Rightarrow> real \<Rightarrow> Engine \<Rightarrow> Engine" where
  "publishPose props timestamp m w s =
     (let (pose, g) = composePose props timestamp m w (randomRef s);
          s1 = s\<lparr>randomRef := g, lipState := pose\<rparr>;
          (h, s2) = requestAnimationFrame s1
      in s2\<lparr>rafRef := Some h\<rparr>)"

text \<open>
  One run of the animation frame callback. \<open>samples\<close> is what the analyser holds at this
  tick. In text mode the tick ends the session, and publishes nothing, once the timeline is
  over by more than 0.4 seconds.
\<close>

definition updateLoop :: "UseLipSyncEngineProps \<Rightarrow> real \<Rightarrow> 8 word list \<Rightarrow> Engine \<Rightarrow> Engine" where
  "updateLoop props timestamp samples s =
     (let elapsed = (timestamp - startTimeRef s) / 1000 in
      if modeRef s = AudioMode \<and> analyserRef s \<and> audioDataRef s \<noteq> None then
        (let byteArray = getByteTimeDomainData samples (the (audioDataRef s));
             total = foldl (\<lambda>acc b. let v = (real (unat b) - 128) / 128 in acc + v * v) 0 byteArray;
             rms = sqrt (total / real (length byteArray));
             m = clamp (rms * 4 + mouthEnergy (emotion props) * 0.35) 0.05 1;
             w = clamp (rms * 2.8 + 0.25) 0.05 0.9
         in publishPose props timestamp m w (s\<lparr>audioDataRef := Some byteArray\<rparr>))
      else
        (let (m, w) = sampleViseme (visemeTimelineRef s) elapsed in
         if visemeDurationRef s \<noteq> 0 \<and> elapsed > visemeDurationRef s + 0.4
         then shutdownPlayback s
         else publishPose props timestamp m w s))"

text \<open>\<open>script.trim() || "Hello, the stage is ready."\<close>.\<close>

definition previewText :: "js_string \<Rightarrow> js_string" where
  "previewText scr = (if trim scr = [] then js ''Hello, the stage is ready.'' else trim scr)"

text \<open>The text branch of \<open>startPreview\<close>, which has no \<open>await\<close>.\<close>

definition startPreviewText :: "UseLipSyncEngineProps \<Rightarrow> Engine \<Rightarrow> Engine" where
  "startPreviewText props s =
     (if \<not> ttsSupported s then s
      else
        (let s1 = stopSpeechSynthesis s;
             txt = previewText (script props);
             timeline = buildVisemeTimeline txt (emotion props) (seed props);
             s2 = s1\<lparr>visemeTimelineRef := frames timeline, visemeDurationRef := duration timeline\<rparr>;
             pitchBase = 1 + browLift (emotion props) * 0.5;
             rateBase = 1 + (mouthEnergy (emotion props) - 0.5) * 0.4;
             volumeBase = clamp (0.8 + handAmplitude (emotion props) * 0.3) 0.4 1;
             utterance = \<lparr>utteranceText = txt, pitch = clamp pitchBase 0.6 1.6,
                          rate = clamp rateBase 0.7 1.5, volume = volumeBase\<rparr>;
             s3 = s2\<lparr>ttsUtteranceRef := Some utterance\<rparr>;
             s4 = s3\<lparr>speechQueue := []\<rparr>;
             s5 = s4\<lparr>speechQueue := speechQueue s4 @ [utterance]\<rparr>;
             s6 = s5\<lparr>isSpeaking := True\<rparr>;
             (h, s7) = requestAnimationFrame s6
         in s7\<lparr>rafRef := Some h\<rparr>))"

text \<open>
  The audio branch in three parts, cut at its \<open>await\<close>s: up to \<open>await ctx.resume()\<close>
  (\<open>startPreviewAudio\<close>), from there to \<open>await audio.play()\<close> (\<open>startPreviewPlay\<close>), and the
  rest (\<open>startPreviewArm\<close>). Each returns where the call is suspended next, if anywhere.
\<close>

definition startPreviewPlay :: "Engine \<Rightarrow> Engine \<times> SuspendedCall option" where
  "startPreviewPlay s =
     (case audioRef s of
        None \<Rightarrow> (s, None)
      | Some audio \<Rightarrow>
          (s\<lparr>audioRef := Some (audio\<lparr>currentTime := 0, paused := False\<rparr>)\<rparr>, Some AwaitAudioPlay))"

definition startPreviewArm :: "Engine \<Rightarrow> Engine" where
  "startPreviewArm s =
     (let s1 = s\<lparr>isSpeaking := True\<rparr>;
          (h, s2) = requestAnimationFrame s1;
          s3 = s2\<lparr>rafRef := Some h\<rparr>
      in s3\<lparr>audioRef := map_option (\<lambda>a. a\<lparr>onended := True\<rparr>) (audioRef s3)\<rparr>)"

definition startPreviewAudio :: "Engine \<Rightarrow> Engine \<times> SuspendedCall option" where
  "startPreviewAudio s =
     (let (analyser, s1) = ensureAnalyser s in
      if \<not> analyser \<or> \<not> hasAudioLoaded s1 then (s1, None)
      else if audioContextRef s1 = Some Suspended then (s1, Some AwaitContextResume)
      else startPreviewPlay s1)"

text \<open>
  \<open>startPreview(options)\<close> called when \<open>performance.now()\<close> is \<open>now\<close>, run to its first
  \<open>await\<close> or to its return.
\<close>

definition startPreview :: "UseLipSyncEngineProps \<Rightarrow> StartPreviewOptions \<Rightarrow> real \<Rightarrow> Engine
    \<Rightarrow> Engine \<times> SuspendedCall option" where
  "startPreview props options now s =
     (let mode = (case sourceMode options of None \<Rightarrow> modeRef s | Some m \<Rightarrow> m);
          s1 = s\<lparr>modeRef := mode\<rparr>;
          s2 = (if \<not> fromExport options then resetLipState s1 else s1)
      in if \<not> forceRestart options \<and> isSpeaking s2 then (s2, None)
         else
           (let s3 = cleanupRAF s2;
                s4 = s3\<lparr>startTimeRef := now\<rparr>
            in if mode = AudioMode then startPreviewAudio s4
               else (startPreviewText props s4, None)))"

definition stopPreview :: "Engine \<Rightarrow> Engine" where
  "stopPreview s = resetLipState (shutdownPlayback s)"

text \<open>
  \<open>loadAudioFile(file)\<close>; the object URL of a file is modelled by the file. \<open>audio.load()\<close>
  resets the element: it is paused at position \<open>0\<close>.
\<close>

definition loadAudioFile :: "nat \<Rightarrow> Engine \<Rightarrow> Engine" where
  "loadAudioFile file s =
     (if \<not> hasWindow s then s
      else
        (case audioRef s of
           None \<Rightarrow> s
         | Some audio \<Rightarrow>
             (let s1 = s\<lparr>objectUrlRef := Some file, audioRef := Some (audio\<lparr>src := Some file\<rparr>)\<rparr>;
                  s2 = pauseAudio s1;
                  s3 = s2\<lparr>audioRef := map_option (\<lambda>a. a\<lparr>currentTime := 0\<rparr>) (audioRef s2)\<rparr>
              in s3\<lparr>hasAudioLoaded := True\<rparr>)))"

definition registerStageCanvas :: "bool \<Rightarrow> Engine \<Rightarrow> Engine" where
  "registerStageCanvas canvas s = s\<lparr>stageCanvasRef := canvas\<rparr>"


section \<open>The engine: callbacks of the page, and export\<close>

text \<open>
  What the browser may refuse when \<open>exportVideo\<close> is called: \<open>canvas.captureStream(60)\<close>,
  \<open>new MediaRecorder(...)\<close> (the type \<open>video/webm;codecs=vp9\<close> is not supported everywhere) or
  \<open>recorder.start()\<close> throws. None of the three is inside a \<open>try\<close>.
\<close>

datatype PlatformFailure = CaptureStreamThrows | MediaRecorderThrows | RecorderStartThrows

text \<open>
  The engine runs on one thread: between two \<open>await\<close>s a callback runs alone, and the
  callbacks of the page run one after the other. An event is one such callback: a call of
  an operation of the hook, a promise that a suspended call awaits settling (\<open>Continue\<close> and
  \<open>Reject\<close> for the \<open>k\<close>-th suspended call of \<open>startPreview\<close> made by the page,
  \<open>ExportContinue\<close> and \<open>ExportReject\<close> for the call of \<open>startPreview\<close> that the \<open>k\<close>-th call of
  \<open>exportVideo\<close> awaits), an animation frame, the end of the utterance or of the audio, or the
  timer of the \<open>k\<close>-th call of \<open>exportVideo\<close>. The order of the events is their order in time.
  \<open>ExportVideo\<close> carries what \<open>performance.now()\<close> returns and what the browser refuses.
  \<open>ExportTimer\<close> carries what the rest of that call reads from outside the engine: the data of
  the \<open>dataavailable\<close> events that the recorder has delivered when the clip is assembled, and
  the body of the \<open>try\<close> of \<open>convertWebmToMp4\<close> (the bytes of the mp4, or \<open>None\<close> when the
  import or ffmpeg throws).
\<close>

datatype Event =
    LoadAudioFile nat
  | RegisterStageCanvas bool
  | StartPreview StartPreviewOptions real
  | Continue nat
  | Reject nat
  | AnimationFrame real "8 word list"
  | StopPreview
  | UtteranceEnd
  | AudioEnded
  | ExportVideo real "PlatformFailure option"
  | ExportContinue nat
  | ExportReject nat
  | ExportTimer nat "8 word list list" "Blob \<Rightarrow> 8 word list option"

definition suspend :: "Engine \<times> SuspendedCall option \<Rightarrow> Engine" where
  "suspend r =
     (case r of
        (s, None) \<Rightarrow> s
      | (s, Some c) \<Rightarrow> s\<lparr>suspendedCalls := suspendedCalls s @ [c]\<rparr>)"

text \<open>A suspended call goes on after its \<open>await\<close>; \<open>ctx.resume()\<close> has made the context run.\<close>

definition resumeCall :: "SuspendedCall \<Rightarrow> Engine \<Rightarrow> Engine \<times> SuspendedCall option" where
  "resumeCall c s =
     (case c of
        AwaitContextResume \<Rightarrow> startPreviewPlay (s\<lparr>audioContextRef := Some Running\<rparr>)
      | AwaitAudioPlay \<Rightarrow> (startPreviewArm s, None))"

text \<open>
  An animation frame: the browser runs, with the frame's timestamp, the callbacks that were
  registered when the frame began and have not been cancelled since.
\<close>

fun runFrameCallbacks :: "UseLipSyncEngineProps \<Rightarrow> real \<Rightarrow> 8 word list \<Rightarrow> nat list \<Rightarrow> Engine
    \<Rightarrow> Engine" where
  "runFrameCallbacks props timestamp samples [] s = s"
| "runFrameCallbacks props timestamp samples (h # hs) s =
     (if h \<in> set (frameCallbacks s)
      then runFrameCallbacks props timestamp samples hs
             (updateLoop props timestamp samples
                (s\<lparr>frameCallbacks := removeAll h (frameCallbacks s)\<rparr>))
      else runFrameCallbacks props timestamp samples hs s)"

text \<open>
  \<open>exportVideo()\<close>, run to its first suspension or to its end. It returns \<open>null\<close> without a
  window or a stage canvas. An exception of \<open>captureStream\<close> or of the constructor of the
  recorder leaves the function before the resolver is stored, one of \<open>recorder.start()\<close> after.
  The \<open>try\<close> around the capture of the audio track only decides what the stream holds, which
  the model leaves out. Then \<open>startPreview\<close> is called and awaited: when that call returns
  without suspending, \<open>exportVideo\<close> goes on to set its timer.
\<close>

definition exportVideo :: "UseLipSyncEngineProps \<Rightarrow> real \<Rightarrow> PlatformFailure option \<Rightarrow> Engine
    \<Rightarrow> Engine" where
  "exportVideo props now failure s =
     (if \<not> hasWindow s
      then s\<lparr>exportCalls := exportCalls s @
               [\<lparr>exportPromise = None, recorder = None, stage = Returned None\<rparr>]\<rparr>
      else if \<not> stageCanvasRef s
      then s\<lparr>exportCalls := exportCalls s @
               [\<lparr>exportPromise = None, recorder = None, stage = Returned None\<rparr>]\<rparr>
      else if failure = Some CaptureStreamThrows \<or> failure = Some MediaRecorderThrows
      then s\<lparr>exportCalls := exportCalls s @
               [\<lparr>exportPromise = None, recorder = None, stage = Thrown\<rparr>]\<rparr>
      else
        (let p = nextPromiseId s;
             s1 = s\<lparr>exportResolveRef := Some p, nextPromiseId := p + 1\<rparr>
         in if failure = Some RecorderStartThrows
            then s1\<lparr>exportCalls := exportCalls s1 @
                      [\<lparr>exportPromise = Some p, recorder = Some Inactive, stage = Thrown\<rparr>]\<rparr>
            else
              (let (s2, c) = startPreview props
                               \<lparr>forceRestart = True, sourceMode = None, fromExport = True\<rparr> now s1
               in s2\<lparr>exportCalls := exportCalls s2 @
                        [\<lparr>exportPromise = Some p, recorder = Some Recording,
                          stage = (case c of
                                     None \<Rightarrow> AwaitTimer EXPORT_DURATION_MS
                                   | Some c' \<Rightarrow> AwaitStartPreview c')\<rparr>]\<rparr>)))"

text \<open>
  The promise that the \<open>startPreview\<close> of the \<open>k\<close>-th call of \<open>exportVideo\<close> awaits fulfils:
  \<open>startPreview\<close> goes on to its next \<open>await\<close> or returns, and then \<open>exportVideo\<close> sets its timer.
\<close>

definition exportVideoContinue :: "nat \<Rightarrow> Engine \<Rightarrow> Engine" where
  "exportVideoContinue k s =
     (if k < length (exportCalls s) then
        (case stage (exportCalls s ! k) of
           AwaitStartPreview c \<Rightarrow>
             (let (s1, c1) = resumeCall c s
              in s1\<lparr>exportCalls := (exportCalls s1)
                      [k := (exportCalls s1 ! k)
                         \<lparr>stage := (case c1 of
                                      None \<Rightarrow> AwaitTimer EXPORT_DURATION_MS
                                    | Some c' \<Rightarrow> AwaitStartPreview c')\<rparr>]\<rparr>)
         | _ \<Rightarrow> s)
      else s)"

text \<open>
  That promise rejects (\<open>audio.play()\<close> does for a file the browser cannot decode): the
  exception leaves \<open>startPreview\<close> and then \<open>exportVideo\<close>, whose \<open>await startPreview(...)\<close> is in
  no \<open>try\<close>. Nothing after the \<open>await\<close> runs: no timer is set and the recorder is not stopped.
\<close>

definition exportVideoReject :: "nat \<Rightarrow> Engine \<Rightarrow> Engine" where
  "exportVideoReject k s =
     (if k < length (exportCalls s) then
        (case stage (exportCalls s ! k) of
           AwaitStartPreview c \<Rightarrow>
             s\<lparr>exportCalls := (exportCalls s)[k := (exportCalls s ! k)\<lparr>stage := Thrown\<rparr>]\<rparr>
         | _ \<Rightarrow> s)
      else s)"

definition convertWebmToMp4 :: "(Blob \<Rightarrow> 8 word list option) \<Rightarrow> bool \<Rightarrow> Blob \<Rightarrow> Blob" where
  "convertWebmToMp4 conv window webmBlob =
     (if \<not> window then webmBlob
      else
        (case conv webmBlob of
           None \<Rightarrow> webmBlob
         | Some bytes \<Rightarrow> Blob [bytes] ''video/mp4''))"

text \<open>
  The timer of the \<open>k\<close>-th call fires: \<open>recorder.stop()\<close>, \<open>shutdownPlayback()\<close>, and
  \<open>await exportPromise\<close>. \<open>shutdownPlayback\<close> calls the resolver that \<open>exportResolveRef\<close> holds
  and clears the ref. When the promise of this call is resolved, the call assembles the clip
  from the chunks that have data, converts it and returns. When it is not,
  the ref held no resolver of it any more, none is left anywhere, and the call stays in
  \<open>await exportPromise\<close>. The recorder is taken to record until it is stopped.
\<close>

definition exportVideoFinish :: "nat \<Rightarrow> 8 word list list \<Rightarrow> (Blob \<Rightarrow> 8 word list option) \<Rightarrow> Engine
    \<Rightarrow> Engine" where
  "exportVideoFinish k recorderData conversion s =
     (if k < length (exportCalls s) then
        (case stage (exportCalls s ! k) of
           AwaitTimer delay \<Rightarrow>
             (let s1 = s\<lparr>exportCalls := (exportCalls s)
                          [k := (exportCalls s ! k)\<lparr>recorder := Some Inactive\<rparr>]\<rparr>;
                  s2 = shutdownPlayback s1;
                  call = exportCalls s2 ! k;
                  resolved = (case exportPromise call of
                                None \<Rightarrow> False
                              | Some p \<Rightarrow> p \<in> set (resolvedPromises s2))
              in if \<not> resolved
                 then s2\<lparr>exportCalls := (exportCalls s2)[k := call\<lparr>stage := AwaitExportPromise\<rparr>]\<rparr>
                 else
                   (let chunks = filter (\<lambda>d. length d > 0) recorderData;
                        webmBlob = Blob chunks ''video/webm''
                    in s2\<lparr>exportCalls := (exportCalls s2)
                            [k := call\<lparr>stage := Returned (Some (convertWebmToMp4 conversion
                                                                  (hasWindow s) webmBlob))\<rparr>]\<rparr>))
         | _ \<Rightarrow> s)
      else s)"

definition applyEvent :: "UseLipSyncEngineProps \<Rightarrow> Event \<Rightarrow> Engine \<Rightarrow> Engine" where
  "applyEvent props e s =
     (case e of
        LoadAudioFile file \<Rightarrow> loadAudioFile file s
      | RegisterStageCanvas canvas \<Rightarrow> registerStageCanvas canvas s
      | StartPreview options now \<Rightarrow> suspend (startPreview props options now s)
      | Continue k \<Rightarrow>
          (if k < length (suspendedCalls s)
           then suspend (resumeCall (suspendedCalls s ! k)
                  (s\<lparr>suspendedCalls := take k (suspendedCalls s) @ drop (k + 1) (suspendedCalls s)\<rparr>))
           else s)
      | Reject k \<Rightarrow>
          (if k < length (suspendedCalls s)
           then s\<lparr>suspendedCalls := take k (suspendedCalls s) @ drop (k + 1) (suspendedCalls s)\<rparr>
           else s)
      | AnimationFrame timestamp samples \<Rightarrow>
          runFrameCallbacks props timestamp samples (frameCallbacks s) s
      | StopPreview \<Rightarrow> stopPreview s
      | UtteranceEnd \<Rightarrow>
          (if speechQueue s = [] then s
           else shutdownPlayback (s\<lparr>speechQueue := tl (speechQueue s)\<rparr>))
      | AudioEnded \<Rightarrow>
          (case audioRef s of
             None \<Rightarrow> s
           | Some audio \<Rightarrow> if onended audio \<and> \<not> paused audio then shutdownPlayback s else s)
      | ExportVideo now failure \<Rightarrow> exportVideo props now failure s
      | ExportContinue k \<Rightarrow> exportVideoContinue k s
      | ExportReject k \<Rightarrow> exportVideoReject k s
      | ExportTimer k recorderData conversion \<Rightarrow> exportVideoFinish k recorderData conversion s)"

definition runEvents :: "UseLipSyncEngineProps \<Rightarrow> Event list \<Rightarrow> Engine \<Rightarrow> Engine" where
  "runEvents props es s = foldl (\<lambda>s' e. applyEvent props e s') s es"


section \<open>Ranges and example states\<close>

text \<open>A frame whose mouth and width lie between two bounds.\<close>

definition frameOk :: "real \<Rightarrow> real \<Rightarrow> VisemeFrame \<Rightarrow> bool" where
  "frameOk lo hi f = (lo \<le> mouth f \<and> mouth f \<le> hi \<and> lo \<le> width f \<and> width f \<le> hi)"

text \<open>An emotion profile whose four numeric fields lie in \<open>[0, 1]\<close>.\<close>

definition emotionInRange :: "EmotionPreset \<Rightarrow> bool" where
  "emotionInRange e =
     (0 \<le> mouthEnergy e \<and> mouthEnergy e \<le> 1 \<and> 0 \<le> handAmplitude e \<and> handAmplitude e \<le> 1 \<and>
      0 \<le> gazeIntensity e \<and> gazeIntensity e \<le> 1 \<and> 0 \<le> browLift e \<and> browLift e \<le> 1)"

text \<open>
  The ranges of the twelve channels of a pose that the engine keeps: \<open>[0, 1]\<close> for the mouth
  and the blink, magnitude at most 1 for the head, the gaze and the body sway, and
  \<open>[0, 1.25]\<close>, \<open>[-0.2, 1.7]\<close> and \<open>[-0.25, 1.8]\<close> for the eyebrows and the two hands.
\<close>

definition poseInRange :: "LipState \<Rightarrow> bool" where
  "poseInRange p =
     (0 \<le> mouthOpen p \<and> mouthOpen p \<le> 1 \<and> 0 \<le> mouthWidth p \<and> mouthWidth p \<le> 1 \<and>
      0 \<le> blink p \<and> blink p \<le> 1 \<and>
      \<bar>headYaw p\<bar> \<le> 1 \<and> \<bar>headPitch p\<bar> \<le> 1 \<and> \<bar>headRoll p\<bar> \<le> 1 \<and>
      \<bar>gazeX p\<bar> \<le> 1 \<and> \<bar>gazeY p\<bar> \<le> 1 \<and> \<bar>bodySway p\<bar> \<le> 1 \<and>
      0 \<le> eyebrowLift p \<and> eyebrowLift p \<le> 1.25 \<and>
      - 0.2 \<le> handLeft p \<and> handLeft p \<le> 1.7 \<and>
      - 0.25 \<le> handRight p \<and> handRight p \<le> 1.8)"

text \<open>No channel of the pose exceeds 1 in magnitude.\<close>

definition unitMagnitude :: "LipState \<Rightarrow> bool" where
  "unitMagnitude p =
     (\<bar>mouthOpen p\<bar> \<le> 1 \<and> \<bar>mouthWidth p\<bar> \<le> 1 \<and> \<bar>blink p\<bar> \<le> 1 \<and> \<bar>eyebrowLift p\<bar> \<le> 1 \<and>
      \<bar>headYaw p\<bar> \<le> 1 \<and> \<bar>headPitch p\<bar> \<le> 1 \<and> \<bar>headRoll p\<bar> \<le> 1 \<and> \<bar>gazeX p\<bar> \<le> 1 \<and>
      \<bar>gazeY p\<bar> \<le> 1 \<and> \<bar>handLeft p\<bar> \<le> 1 \<and> \<bar>handRight p\<bar> \<le> 1 \<and> \<bar>bodySway p\<bar> \<le> 1)"

text \<open>The root mean square that \<open>updateLoop\<close> computes from the bytes of the analyser.\<close>

definition audioRms :: "8 word list \<Rightarrow> real" where
  "audioRms byteArray =
     sqrt (foldl (\<lambda>acc b. let v = (real (unat b) - 128) / 128 in acc + v * v) 0 byteArray /
           real (length byteArray))"

text \<open>
  Concrete inputs for the closed theorems: properties with every field of the emotion at 1,
  a start in audio mode, and the engine playing a loaded audio file (the file is loaded,
  \<open>startPreview\<close> is called in audio mode at time 0, and \<open>audio.play()\<close> has fulfilled).
\<close>

definition exampleProps :: UseLipSyncEngineProps where
  "exampleProps =
     \<lparr>emotion = \<lparr>mouthEnergy = 1, handAmplitude = 1, gazeIntensity = 1, browLift = 1\<rparr>,
      script = js ''Hey there'', seed = 0\<rparr>"

definition audioStart :: StartPreviewOptions where
  "audioStart = \<lparr>forceRestart = False, sourceMode = Some AudioMode, fromExport = False\<rparr>"

definition audioSession :: Engine where
  "audioSession =
     runEvents exampleProps [LoadAudioFile 0, StartPreview audioStart 0, Continue 0]
       (initialEngine exampleProps True True True)"

text \<open>
  A start in text mode, a forced restart in audio mode, the playing engine after one tick on
  a clipping buffer (all bytes 0), and the engine speaking the script (\<open>startPreview\<close> was
  called in text mode at time 0).
\<close>

definition textStart :: StartPreviewOptions where
  "textStart = \<lparr>forceRestart = False, sourceMode = Some TextMode, fromExport = False\<rparr>"

definition audioRestart :: StartPreviewOptions where
  "audioRestart = \<lparr>forceRestart = True, sourceMode = Some AudioMode, fromExport = False\<rparr>"

definition clippedSession :: Engine where
  "clippedSession = updateLoop exampleProps 16 (replicate 1024 0) audioSession"

definition textSession :: Engine where
  "textSession = runEvents exampleProps [StartPreview textStart 0] (initialEngine exampleProps True True True)"

text \<open>
  Two forced starts in audio mode, the second called while the first is suspended on
  \<open>await audio.play()\<close>, and then both resumed.
\<close>

definition overlappingStarts :: Engine where
  "overlappingStarts =
     runEvents exampleProps
       [LoadAudioFile 0, StartPreview audioRestart 0, StartPreview audioRestart 1,
        Continue 0, Continue 0]
       (initialEngine exampleProps True True True)"

text \<open>
  The stages that a call of \<open>exportVideo\<close> never leaves: its promise has settled, or it waits
  for a promise whose resolver is lost. \<open>callIs k call s\<close> says that the \<open>k\<close>-th call of
  \<open>exportVideo\<close> is \<open>call\<close>.
\<close>

fun isFinal :: "ExportStage \<Rightarrow> bool" where
  "isFinal (AwaitStartPreview c) = False"
| "isFinal (AwaitTimer delay) = False"
| "isFinal AwaitExportPromise = True"
| "isFinal (Returned clip) = True"
| "isFinal Thrown = True"

definition callIs :: "nat \<Rightarrow> ExportCall \<Rightarrow> Engine \<Rightarrow> bool" where
  "callIs k call s = (k < length (exportCalls s) \<and> exportCalls s ! k = call)"

text \<open>
  An export in audio mode of a file that the browser cannot decode. The stage canvas is
  registered and the file is loaded, which sets \<open>hasAudioLoaded\<close> whatever the file holds; a
  preview in audio mode is started and its \<open>audio.play()\<close> rejects, so that \<open>isSpeaking\<close> stays
  false; then \<open>exportVideo\<close> is called, its \<open>startPreview\<close> calls \<open>audio.play()\<close> again, and that
  promise rejects as well.
\<close>

definition rejectedExport :: Engine where
  "rejectedExport =
     runEvents exampleProps
       [RegisterStageCanvas True, LoadAudioFile 0, StartPreview audioStart 0, Reject 0,
        ExportVideo 1000 None, ExportReject 0]
       (initialEngine exampleProps True True True)"

text \<open>
  Two overlapping exports in a browser without speech synthesis: \<open>startPreview\<close> returns at
  once in text mode, \<open>isSpeaking\<close> stays false, and \<open>exportVideo\<close> is called again one second
  after the first call. Then the two timers fire; each recorder has delivered one chunk with
  data and an empty one, and the conversion fails.
\<close>

definition overlappingExports :: Engine where
  "overlappingExports =
     runEvents exampleProps
       [RegisterStageCanvas True, ExportVideo 0 None, ExportVideo 1000 None,
        ExportTimer 0 [[1, 2, 3], []] (\<lambda>b. None), ExportTimer 1 [[1, 2, 3], []] (\<lambda>b. None)]
       (initialEngine exampleProps True False True)"

declare replaceWhitespaceRuns.simps [simp del]
declare fallbackLoop.simps [simp del]
declare frameLoop.simps [simp del]


section \<open>Lemmas: the loops of the synthesizer\<close>

lemma length_fallbackLoop:
  "length (fallbackLoop i frameCount g acc) = length acc + (frameCount - i)"
proof (induction i frameCount g acc rule: fallbackLoop.induct)
  case (1 i frameCount g acc)
  show ?case
  proof (cases "i < frameCount")
    case True
    obtain r1 g1 where a: "nextRandom g = (r1, g1)" by (cases "nextRandom g")
    obtain r2 g2 where b: "nextRandom g1 = (r2, g2)" by (cases "nextRandom g1")
    from True a b "1.IH"[OF True refl a[symmetric] refl b[symmetric] refl]
    show ?thesis by (subst fallbackLoop.simps) simp
  next
    case False
    then show ?thesis by (subst fallbackLoop.simps) simp
  qed
qed

lemma times_fallbackLoop:
  "map time (fallbackLoop i frameCount g acc) = map time acc @ map (\<lambda>k. real k / 60) [i..<frameCount]"
proof (induction i frameCount g acc rule: fallbackLoop.induct)
  case (1 i frameCount g acc)
  show ?case
  proof (cases "i < frameCount")
    case True
    obtain r1 g1 where a: "nextRandom g = (r1, g1)" by (cases "nextRandom g")
    obtain r2 g2 where b: "nextRandom g1 = (r2, g2)" by (cases "nextRandom g1")
    from True a b "1.IH"[OF True refl a[symmetric] refl b[symmetric] refl]
    show ?thesis by (subst fallbackLoop.simps) (simp add: upt_conv_Cons)
  next
    case False
    then show ?thesis by (subst fallbackLoop.simps) simp
  qed
qed

lemma length_frameLoop:
  "length (frameLoop frame frameCount peaks g acc) = length acc + (frameCount - frame)"
proof (induction frame frameCount peaks g acc rule: frameLoop.induct)
  case (1 frame frameCount peaks g acc)
  show ?case
  proof (cases "frame < frameCount")
    case True
    obtain m w where c: "accumulatePeaks (real frame / 60) peaks (12 / 10\<^sup>2, 3 / 10) = (m, w)"
      by (cases "accumulatePeaks (real frame / 60) peaks (12 / 10\<^sup>2, 3 / 10)")
    obtain r1 g1 where a: "nextRandom g = (r1, g1)" by (cases "nextRandom g")
    obtain r2 g2 where b: "nextRandom g1 = (r2, g2)" by (cases "nextRandom g1")
    from True a b c "1.IH"[OF True refl c[symmetric] refl a[symmetric] refl refl b[symmetric] refl refl refl refl]
    show ?thesis by (subst frameLoop.simps) (simp del: accumulatePeaks.simps)
  next
    case False
    then show ?thesis by (subst frameLoop.simps) simp
  qed
qed

lemma times_frameLoop:
  "map time (frameLoop frame frameCount peaks g acc) = map time acc @ map (\<lambda>k. real k / 60) [frame..<frameCount]"
proof (induction frame frameCount peaks g acc rule: frameLoop.induct)
  case (1 frame frameCount peaks g acc)
  show ?case
  proof (cases "frame < frameCount")
    case True
    obtain m w where c: "accumulatePeaks (real frame / 60) peaks (12 / 10\<^sup>2, 3 / 10) = (m, w)"
      by (cases "accumulatePeaks (real frame / 60) peaks (12 / 10\<^sup>2, 3 / 10)")
    obtain r1 g1 where a: "nextRandom g = (r1, g1)" by (cases "nextRandom g")
    obtain r2 g2 where b: "nextRandom g1 = (r2, g2)" by (cases "nextRandom g1")
    from True a b c "1.IH"[OF True refl c[symmetric] refl a[symmetric] refl refl b[symmetric] refl refl refl refl]
    show ?thesis by (subst frameLoop.simps) (simp del: accumulatePeaks.simps add: upt_conv_Cons)
  next
    case False
    then show ?thesis by (subst frameLoop.simps) simp
  qed
qed

lemma getWords_hey: "getWords (js ''Hey there'') = [js ''Hey'', js ''there'']"
  by (simp add: getWords_def js_def trim_def isWhiteSpace_def replaceWhitespaceRuns.simps)

lemma clamp_bounds: "lo \<le> hi \<Longrightarrow> lo \<le> clamp v lo hi \<and> clamp v lo hi \<le> hi"
  by (auto simp: clamp_def)

lemma estimateWordDuration_bounds:
  "0.28 \<le> estimateWordDuration e \<and> estimateWordDuration e \<le> 0.6"
  unfolding estimateWordDuration_def Let_def by (rule clamp_bounds) simp

lemma duration_ge_2: "2 \<le> duration (buildVisemeTimeline txt e sd)"
  by (simp add: buildVisemeTimeline_def Let_def split_beta)

lemma length_frames:
  "length (frames (buildVisemeTimeline txt e sd)) = nat \<lfloor>duration (buildVisemeTimeline txt e sd) * 60\<rfloor>"
  by (simp add: buildVisemeTimeline_def Let_def split_beta length_fallbackLoop length_frameLoop)

lemma times_frames:
  "map time (frames (buildVisemeTimeline txt e sd)) =
     map (\<lambda>k. real k / 60) [0..<nat \<lfloor>duration (buildVisemeTimeline txt e sd) * 60\<rfloor>]"
  by (simp add: buildVisemeTimeline_def Let_def split_beta times_fallbackLoop times_frameLoop)

lemma frames_ge_120: "120 \<le> length (frames (buildVisemeTimeline txt e sd))"
proof -
  have "2 \<le> duration (buildVisemeTimeline txt e sd)" by (rule duration_ge_2)
  then have "(120::int) \<le> \<lfloor>duration (buildVisemeTimeline txt e sd) * 60\<rfloor>"
    by (simp add: le_floor_iff)
  then have "120 \<le> nat \<lfloor>duration (buildVisemeTimeline txt e sd) * 60\<rfloor>" by linarith
  then show ?thesis by (simp only: length_frames)
qed


section \<open>Lemmas: words\<close>

lemma dropWhile_keeps: "x \<in> set xs \<Longrightarrow> \<not> P x \<Longrightarrow> x \<in> set (dropWhile P xs)"
  by (induction xs) auto

lemma replaceWhitespaceRuns_keeps:
  "c \<in> set s \<Longrightarrow> \<not> isWhiteSpace c \<Longrightarrow> c \<in> set (replaceWhitespaceRuns s)"
proof (induction s rule: replaceWhitespaceRuns.induct)
  case 1
  then show ?case by simp
next
  case (2 d ds)
  show ?case
  proof (cases "isWhiteSpace d")
    case True
    with "2.prems" have "c \<in> set ds" by auto
    then have "c \<in> set (dropWhile isWhiteSpace ds)"
      using "2.prems"(2) by (rule dropWhile_keeps)
    with True "2.IH"(1) "2.prems"(2) show ?thesis
      by (simp add: replaceWhitespaceRuns.simps)
  next
    case False
    with "2.IH"(2) "2.prems" show ?thesis
      by (auto simp: replaceWhitespaceRuns.simps)
  qed
qed

lemma trim_keeps: "c \<in> set s \<Longrightarrow> \<not> isWhiteSpace c \<Longrightarrow> c \<in> set (trim s)"
  by (simp add: trim_def dropWhile_keeps)

lemma splitOn_not_Nil: "splitOn sep s \<noteq> []"
  by (induction s) (auto split: list.splits)

lemma splitOn_keeps: "c \<in> set s \<Longrightarrow> c \<noteq> sep \<Longrightarrow> \<exists>w \<in> set (splitOn sep s). c \<in> set w"
proof (induction s)
  case Nil
  then show ?case by simp
next
  case (Cons d ds)
  obtain w ws where sp: "splitOn sep ds = w # ws"
    using splitOn_not_Nil[of sep ds] by (cases "splitOn sep ds") auto
  show ?case
  proof (cases "c = d")
    case True
    with Cons.prems sp show ?thesis by simp
  next
    case False
    with Cons.prems have "c \<in> set ds" by simp
    with Cons.IH Cons.prems(2) obtain v where "v \<in> set (splitOn sep ds)" "c \<in> set v" by blast
    with sp show ?thesis by (cases "d = sep") auto
  qed
qed

lemma getWords_nonempty:
  assumes "c \<in> set s" and "\<not> isWhiteSpace c"
  shows "getWords s \<noteq> []"
proof -
  have sp: "isWhiteSpace 0x20" by (simp add: isWhiteSpace_def)
  with assms(2) have ne: "c \<noteq> 0x20" by auto
  have "c \<in> set (trim (replaceWhitespaceRuns s))"
    using assms by (simp add: trim_keeps replaceWhitespaceRuns_keeps)
  then obtain w where w: "w \<in> set (splitOn 0x20 (trim (replaceWhitespaceRuns s)))" "c \<in> set w"
    using splitOn_keeps[OF _ ne] by blast
  then have "w \<noteq> []" by auto
  with w(1) have "w \<in> set (getWords s)" by (simp add: getWords_def)
  then show ?thesis by auto
qed

lemma trim_whitespace:
  assumes "\<forall>c \<in> set s. isWhiteSpace c"
  shows "trim s = []"
proof -
  from assms have "dropWhile isWhiteSpace s = []" by simp
  then show ?thesis unfolding trim_def by (simp only: rev.simps dropWhile.simps)
qed

lemma replaceWhitespaceRuns_whitespace:
  assumes "\<forall>c \<in> set s. isWhiteSpace c"
  shows "replaceWhitespaceRuns s = (if s = [] then [] else [0x20])"
proof (cases s)
  case Nil
  then show ?thesis by (simp add: replaceWhitespaceRuns.simps)
next
  case (Cons d ds)
  with assms have dw: "dropWhile isWhiteSpace ds = []" by simp
  from Cons assms have "isWhiteSpace d" by simp
  then have "replaceWhitespaceRuns (d # ds) = [0x20]"
    by (simp only: replaceWhitespaceRuns.simps dw if_True)
  with Cons show ?thesis by simp
qed

lemma getWords_whitespace:
  assumes "\<forall>c \<in> set s. isWhiteSpace c"
  shows "getWords s = []"
proof -
  have "trim (replaceWhitespaceRuns s) = []"
    by (rule trim_whitespace) (simp add: replaceWhitespaceRuns_whitespace[OF assms] isWhiteSpace_def)
  then show ?thesis by (simp add: getWords_def)
qed

lemma trim_has_letter:
  assumes "trim s \<noteq> []"
  shows "\<exists>c \<in> set (trim s). \<not> isWhiteSpace c"
proof -
  let ?r = "dropWhile isWhiteSpace (rev (dropWhile isWhiteSpace s))"
  from assms have ne: "?r \<noteq> []" by (simp add: trim_def)
  then have "\<not> isWhiteSpace (hd ?r)" by (rule hd_dropWhile)
  moreover from ne have "hd ?r \<in> set (trim s)" by (simp add: trim_def)
  ultimately show ?thesis by blast
qed

lemma getWords_previewText: "getWords (previewText scr) \<noteq> []"
proof (cases "trim scr = []")
  case True
  have "(72::16 word) \<in> set (js ''Hello, the stage is ready.'')" by (simp add: js_def)
  moreover have "\<not> isWhiteSpace (72::16 word)" by (simp add: isWhiteSpace_def)
  ultimately have "getWords (js ''Hello, the stage is ready.'') \<noteq> []" by (rule getWords_nonempty)
  with True show ?thesis by (simp add: previewText_def)
next
  case False
  then obtain c where "c \<in> set (trim scr)" "\<not> isWhiteSpace c" using trim_has_letter by blast
  then have "getWords (trim scr) \<noteq> []" by (rule getWords_nonempty)
  with False show ?thesis by (simp add: previewText_def)
qed


section \<open>Lemmas: ranges of the generator, the frames and the sampler\<close>

lemma nextRandom_range:
  assumes "nextRandom g = (r, g')"
  shows "0 \<le> r \<and> r < 1"
proof -
  from assms have "r = g' - of_int \<lfloor>g'\<rfloor>" by (auto simp: nextRandom_def Let_def)
  then show ?thesis by linarith
qed

lemma fallbackLoop_range:
  "\<forall>f \<in> set acc. frameOk (1/20) 1 f \<Longrightarrow> \<forall>f \<in> set (fallbackLoop i frameCount g acc). frameOk (1/20) 1 f"
proof (induction i frameCount g acc rule: fallbackLoop.induct)
  case (1 i frameCount g acc)
  show ?case
  proof (cases "i < frameCount")
    case True
    obtain r1 g1 where a: "nextRandom g = (r1, g1)" by (cases "nextRandom g")
    obtain r2 g2 where b: "nextRandom g1 = (r2, g2)" by (cases "nextRandom g1")
    have r: "0 \<le> r1" "r1 < 1" "0 \<le> r2" "r2 < 1"
      using nextRandom_range[OF a] nextRandom_range[OF b] by simp_all
    have "frameOk (1/20) 1 \<lparr>time = real i / 60, mouth = 0.2 + r1 * 0.15, width = 0.3 + r2 * 0.15\<rparr>"
      using r by (simp add: frameOk_def)
    with "1.prems" have
      "\<forall>f \<in> set (acc @ [\<lparr>time = real i / 60, mouth = 0.2 + r1 * 0.15, width = 0.3 + r2 * 0.15\<rparr>]).
         frameOk (1/20) 1 f" by simp
    from "1.IH"[OF True refl a[symmetric] refl b[symmetric] refl this] True a b
    show ?thesis by (subst fallbackLoop.simps) simp
  next
    case False
    with "1.prems" show ?thesis by (subst fallbackLoop.simps) simp
  qed
qed

lemma frameLoop_range:
  "\<forall>f \<in> set acc. frameOk (1/20) 1 f \<Longrightarrow>
   \<forall>f \<in> set (frameLoop frame frameCount peaks g acc). frameOk (1/20) 1 f"
proof (induction frame frameCount peaks g acc rule: frameLoop.induct)
  case (1 frame frameCount peaks g acc)
  show ?case
  proof (cases "frame < frameCount")
    case True
    obtain m w where c: "accumulatePeaks (real frame / 60) peaks (12 / 10\<^sup>2, 3 / 10) = (m, w)"
      by (cases "accumulatePeaks (real frame / 60) peaks (12 / 10\<^sup>2, 3 / 10)")
    obtain r1 g1 where a: "nextRandom g = (r1, g1)" by (cases "nextRandom g")
    obtain r2 g2 where b: "nextRandom g1 = (r2, g2)" by (cases "nextRandom g1")
    let ?f = "\<lparr>time = real frame / 60, mouth = clamp (m * (55 / 10\<^sup>2 + r1 * (1 / 10))) (5 / 10\<^sup>2) 1,
               width = clamp (w * (45 / 10\<^sup>2 + r2 * (1 / 10))) (5 / 10\<^sup>2) (95 / 10\<^sup>2)\<rparr>"
    have "frameOk (1/20) 1 ?f"
      using clamp_bounds[of "5 / 10\<^sup>2" 1 "m * (55 / 10\<^sup>2 + r1 * (1 / 10))"]
        clamp_bounds[of "5 / 10\<^sup>2" "95 / 10\<^sup>2" "w * (45 / 10\<^sup>2 + r2 * (1 / 10))"]
      by (simp add: frameOk_def)
    with "1.prems" have "\<forall>f \<in> set (acc @ [?f]). frameOk (1/20) 1 f" by simp
    from "1.IH"[OF True refl c[symmetric] refl a[symmetric] refl refl b[symmetric] refl refl refl refl this]
      True a b c
    show ?thesis by (subst frameLoop.simps) (simp del: accumulatePeaks.simps)
  next
    case False
    with "1.prems" show ?thesis by (subst frameLoop.simps) simp
  qed
qed

lemma frames_range: "\<forall>f \<in> set (frames (buildVisemeTimeline txt e sd)). frameOk (1/20) 1 f"
proof -
  have a: "\<forall>f \<in> set (fallbackLoop i n g []). frameOk (1/20) 1 f" for i n g
    by (rule fallbackLoop_range) simp
  have b: "\<forall>f \<in> set (frameLoop i n ps g []). frameOk (1/20) 1 f" for i n ps g
    by (rule frameLoop_range) simp
  show ?thesis
    by (auto simp: buildVisemeTimeline_def Let_def split_beta dest: a[THEN bspec] b[THEN bspec])
qed

lemma findIndex_bounds: "- 1 \<le> findIndex p xs \<and> findIndex p xs < int (length xs)"
  by (induction xs) (auto simp: Let_def)

lemma sampleViseme_hold:
  "timeline \<noteq> [] \<Longrightarrow> time (last timeline) \<le> elapsed \<Longrightarrow>
   sampleViseme timeline elapsed = (mouth (last timeline), width (last timeline))"
  by (simp add: sampleViseme_def)

lemma interp_range:
  fixes a b t lo hi :: real
  assumes "lo \<le> a" "a \<le> hi" "lo \<le> b" "b \<le> hi" "0 \<le> t" "t \<le> 1"
  shows "lo \<le> a + (b - a) * t \<and> a + (b - a) * t \<le> hi"
proof -
  have e: "a + (b - a) * t = (1 - t) * a + t * b" by (simp add: algebra_simps)
  have "(1 - t) * lo + t * lo \<le> (1 - t) * a + t * b"
    using assms by (intro add_mono mult_left_mono) auto
  moreover have "(1 - t) * a + t * b \<le> (1 - t) * hi + t * hi"
    using assms by (intro add_mono mult_left_mono) auto
  ultimately show ?thesis unfolding e by (simp add: algebra_simps)
qed

lemma sampleViseme_range:
  assumes ok: "\<forall>f \<in> set timeline. frameOk lo hi f" and idle: "lo \<le> 0.1" "0.3 \<le> hi"
  shows "lo \<le> fst (sampleViseme timeline elapsed) \<and> fst (sampleViseme timeline elapsed) \<le> hi \<and>
         lo \<le> snd (sampleViseme timeline elapsed) \<and> snd (sampleViseme timeline elapsed) \<le> hi"
proof (cases "timeline = []")
  case True
  with idle show ?thesis by (simp add: sampleViseme_def)
next
  case ne: False
  then have l: "frameOk lo hi (last timeline)" and h: "frameOk lo hi (timeline ! 0)"
    using ok by (auto simp: last_conv_nth)
  show ?thesis
  proof (cases "time (last timeline) \<le> elapsed")
    case True
    with ne l show ?thesis by (simp add: sampleViseme_def frameOk_def)
  next
    case late: False
    let ?i = "findIndex (\<lambda>frame. elapsed \<le> time frame) timeline"
    show ?thesis
    proof (cases "?i \<le> 0")
      case True
      with ne late h show ?thesis by (simp add: sampleViseme_def frameOk_def)
    next
      case False
      then have "nat ?i < length timeline" "nat (?i - 1) < length timeline"
        using findIndex_bounds[of "\<lambda>frame. elapsed \<le> time frame" timeline] by auto
      then have c: "frameOk lo hi (timeline ! nat ?i)" and p: "frameOk lo hi (timeline ! nat (?i - 1))"
        using ok by auto
      let ?prev = "timeline ! nat (?i - 1)" and ?cur = "timeline ! nat ?i"
      let ?span = "if time ?cur - time ?prev = 0 then 1 else time ?cur - time ?prev"
      let ?w = "clamp ((elapsed - time ?prev) / ?span) 0 1"
      have w: "0 \<le> ?w" "?w \<le> 1" using clamp_bounds[of 0 1] by simp_all
      have m: "lo \<le> mouth ?prev + (mouth ?cur - mouth ?prev) * ?w \<and>
               mouth ?prev + (mouth ?cur - mouth ?prev) * ?w \<le> hi"
        using c p w by (intro interp_range) (simp_all add: frameOk_def)
      have v: "lo \<le> width ?prev + (width ?cur - width ?prev) * ?w \<and>
               width ?prev + (width ?cur - width ?prev) * ?w \<le> hi"
        using c p w by (intro interp_range) (simp_all add: frameOk_def)
      from ne late False m v show ?thesis
        by (simp add: sampleViseme_def Let_def)
    qed
  qed
qed


section \<open>Lemmas: what the synthesizer reads\<close>

lemma peaksFrom_emotion:
  "mouthEnergy e1 = mouthEnergy e2 \<Longrightarrow>
   peaksFrom e1 wd dur index ws g = peaksFrom e2 wd dur index ws g"
  by (induction ws arbitrary: index g) (simp_all add: Let_def split_beta)

lemma estimateWordDuration_emotion:
  "mouthEnergy e1 = mouthEnergy e2 \<Longrightarrow> handAmplitude e1 = handAmplitude e2 \<Longrightarrow>
   estimateWordDuration e1 = estimateWordDuration e2"
  by (simp add: estimateWordDuration_def)

lemma buildVisemeTimeline_cong:
  assumes "getWords text1 = getWords text2" "mouthEnergy e1 = mouthEnergy e2"
    "handAmplitude e1 = handAmplitude e2"
  shows "buildVisemeTimeline text1 e1 sd = buildVisemeTimeline text2 e2 sd"
  unfolding buildVisemeTimeline_def assms(1)
    estimateWordDuration_emotion[OF assms(2,3)] peaksFrom_emotion[OF assms(2)] ..

lemma getWords_spaced: "getWords (js ''  Hey   there '') = [js ''Hey'', js ''there'']"
  by (simp add: getWords_def js_def trim_def isWhiteSpace_def replaceWhitespaceRuns.simps)


section \<open>Lemmas: the fallback timeline and the last frame\<close>

lemma fallbackLoop_idle:
  "\<forall>f \<in> set acc. 0.2 \<le> mouth f \<and> mouth f < 0.35 \<and> 0.3 \<le> width f \<and> width f < 0.45 \<Longrightarrow>
   \<forall>f \<in> set (fallbackLoop i frameCount g acc).
      0.2 \<le> mouth f \<and> mouth f < 0.35 \<and> 0.3 \<le> width f \<and> width f < 0.45"
proof (induction i frameCount g acc rule: fallbackLoop.induct)
  case (1 i frameCount g acc)
  show ?case
  proof (cases "i < frameCount")
    case True
    obtain r1 g1 where a: "nextRandom g = (r1, g1)" by (cases "nextRandom g")
    obtain r2 g2 where b: "nextRandom g1 = (r2, g2)" by (cases "nextRandom g1")
    have r: "0 \<le> r1" "r1 < 1" "0 \<le> r2" "r2 < 1"
      using nextRandom_range[OF a] nextRandom_range[OF b] by simp_all
    let ?f = "\<lparr>time = real i / 60, mouth = 0.2 + r1 * 0.15, width = 0.3 + r2 * 0.15\<rparr>"
    have "0.2 \<le> mouth ?f \<and> mouth ?f < 0.35 \<and> 0.3 \<le> width ?f \<and> width ?f < 0.45"
      using r by simp
    with "1.prems" have
      "\<forall>f \<in> set (acc @ [?f]). 0.2 \<le> mouth f \<and> mouth f < 0.35 \<and> 0.3 \<le> width f \<and> width f < 0.45"
      by simp
    from "1.IH"[OF True refl a[symmetric] refl b[symmetric] refl this] True a b
    show ?thesis by (subst fallbackLoop.simps) simp
  next
    case False
    with "1.prems" show ?thesis by (subst fallbackLoop.simps) simp
  qed
qed

lemma last_sample_time: "0 < n \<Longrightarrow> last (map (\<lambda>k. real k / 60) [0..<n]) = real (n - 1) / 60"
  by (simp add: last_map last_upt)

lemma estimateWordDuration_neutral:
  assumes "mouthEnergy e = 0.5" "handAmplitude e = 0"
  shows "estimateWordDuration e = 0.42"
proof -
  have "estimateWordDuration e = clamp (0.42 - (0.5 - 0.5) * 0.2 - 0 * 0.05) 0.28 0.6"
    unfolding estimateWordDuration_def Let_def assms ..
  also have "\<dots> = 0.42" by (simp add: clamp_def)
  finally show ?thesis .
qed

lemma duration_hey_there:
  assumes "mouthEnergy e = 0.5" "handAmplitude e = 0"
  shows "duration (buildVisemeTimeline (js ''Hey there'') e sd) = 2.04"
  using estimateWordDuration_neutral[OF assms]
  by (simp add: buildVisemeTimeline_def getWords_hey Let_def split_beta)

lemma last_frame_time:
  "frames (buildVisemeTimeline txt e sd) \<noteq> [] \<and>
   time (last (frames (buildVisemeTimeline txt e sd))) < duration (buildVisemeTimeline txt e sd)"
proof -
  let ?tl = "buildVisemeTimeline txt e sd"
  let ?n = "nat \<lfloor>duration ?tl * 60\<rfloor>"
  have n: "120 \<le> ?n" using frames_ge_120[of "txt" e sd] by (simp only: length_frames)
  have ne: "frames ?tl \<noteq> []" using frames_ge_120[of "txt" e sd] by auto
  have "time (last (frames ?tl)) = last (map time (frames ?tl))"
    using ne by (simp add: last_map)
  also have "\<dots> = last (map (\<lambda>k. real k / 60) [0..<?n])" by (simp only: times_frames)
  also have "\<dots> = real (?n - 1) / 60"
  proof (rule last_sample_time)
    from n show "0 < ?n" by linarith
  qed
  finally have t: "time (last (frames ?tl)) = real (?n - 1) / 60" .
  have "real ?n \<le> duration ?tl * 60" using n by linarith
  then have "real (?n - 1) / 60 < duration ?tl" using n by (simp add: of_nat_diff field_simps)
  with t ne show ?thesis by simp
qed

lemma updateLoop_visemeTimelineRef:
  "visemeTimelineRef (updateLoop props timestamp samples s) = visemeTimelineRef s"
  by (simp add: updateLoop_def publishPose_def shutdownPlayback_def cleanupRAF_def
      stopSpeechSynthesis_def pauseAudio_def requestAnimationFrame_def Let_def split_beta
      split: option.splits)

lemma getWords_blank: "getWords (js '' '') = []"
  by (simp add: getWords_def js_def trim_def isWhiteSpace_def replaceWhitespaceRuns.simps)

lemma isWhiteSpace_blank: "\<forall>c \<in> set (js '' ''). isWhiteSpace c"
  by (simp add: js_def isWhiteSpace_def)


section \<open>Lemmas: the pose and the ticks\<close>

lemmas engine_defs =
  runEvents_def applyEvent_def suspend_def resumeCall_def startPreview_def startPreviewAudio_def
  startPreviewPlay_def startPreviewArm_def startPreviewText_def ensureAnalyser_def
  ensureAudioContext_def cleanupRAF_def resetLipState_def stopSpeechSynthesis_def
  shutdownPlayback_def pauseAudio_def requestAnimationFrame_def loadAudioFile_def
  registerStageCanvas_def stopPreview_def initialEngine_def initialLipState_def

lemma getByteTimeDomainData_full:
  "length samples = length byteArray \<Longrightarrow> getByteTimeDomainData samples byteArray = samples"
  by (auto intro!: nth_equalityI simp: getByteTimeDomainData_def)

lemma foldl_add_replicate:
  fixes f :: "'a \<Rightarrow> real"
  shows "foldl (\<lambda>acc b. acc + f b) a (replicate n c) = a + real n * f c"
  by (induction n arbitrary: a) (simp_all add: algebra_simps)

lemma energy_replicate:
  "foldl (\<lambda>acc b. let v = (real (unat b) - 128) / 128 in acc + v * v) a (replicate n c) =
     a + real n * (((real (unat c) - 128) / 128) * ((real (unat c) - 128) / 128))"
  unfolding Let_def by (rule foldl_add_replicate)

lemma audioSession_eq:
  "audioSession =
     \<lparr>lipState = \<lparr>mouthOpen = 0.12, mouthWidth = 0.2, blink = 0, eyebrowLift = 0, headYaw = 0,
        headPitch = 0, headRoll = 0, gazeX = 0, gazeY = 0, handLeft = 0, handRight = 0,
        bodySway = 0\<rparr>,
      isSpeaking = True,
      hasAudioLoaded = True,
      ttsSupported = True,
      modeRef = AudioMode,
      rafRef = Some 1,
      startTimeRef = 0,
      visemeTimelineRef = [],
      visemeDurationRef = 0,
      exportResolveRef = None,
      audioRef = Some \<lparr>src = Some 0, paused = False, currentTime = 0, onended = True\<rparr>,
      objectUrlRef = Some 0,
      audioContextRef = Some Running,
      analyserRef = True,
      audioDataRef = Some (replicate 1024 0),
      stageCanvasRef = False,
      randomRef = 1000000,
      ttsUtteranceRef = None,
      hasWindow = True,
      contextStartsRunning = True,
      frameCallbacks = [1],
      nextFrameId = 2,
      speechQueue = [],
      resolvedPromises = [],
      nextPromiseId = 0,
      suspendedCalls = [],
      exportCalls = []\<rparr>"
  by (simp add: audioSession_def exampleProps_def audioStart_def engine_defs createSeeder_def Let_def)

lemma prod_range:
  fixes a b B :: real
  assumes "0 \<le> a" "a \<le> 1" "0 \<le> b" "b \<le> B"
  shows "0 \<le> a * b \<and> a * b \<le> B"
proof -
  have "a * b \<le> 1 * B" using assms by (intro mult_mono) auto
  with assms show ?thesis by simp
qed

lemma sin_scaled:
  fixes c :: real
  assumes "0 \<le> c"
  shows "\<bar>sin x * c\<bar> \<le> c"
proof -
  have "\<bar>sin x * c\<bar> = \<bar>sin x\<bar> * c" using assms by (simp add: abs_mult)
  also have "\<dots> \<le> 1 * c" using assms by (intro mult_right_mono) auto
  finally show ?thesis by simp
qed

lemma wave_range:
  fixes c lo P hi :: real
  assumes "0 \<le> c" "lo \<le> P" "P \<le> hi"
  shows "lo - c \<le> sin x * c + P \<and> sin x * c + P \<le> hi + c"
  using sin_scaled[OF assms(1), of x] assms(2,3) by linarith

lemma wave_range2:
  fixes c lo P hi :: real
  assumes "0 \<le> c" "lo \<le> P" "P \<le> hi"
  shows "lo - c \<le> P + sin x * c \<and> P + sin x * c \<le> hi + c"
  using sin_scaled[OF assms(1), of x] assms(2,3) by linarith

lemma composePose_ranges:
  assumes e: "emotionInRange (emotion props)"
    and m: "0 \<le> m" "m \<le> 1" and w: "0 \<le> w" "w \<le> 1"
  shows "poseInRange (fst (composePose props timestamp m w g))"
proof -
  obtain r1 g1 where n1: "nextRandom g = (r1, g1)" by (cases "nextRandom g")
  obtain r2 g2 where n2: "nextRandom g1 = (r2, g2)" by (cases "nextRandom g1")
  obtain r3 g3 where n3: "nextRandom g2 = (r3, g3)" by (cases "nextRandom g2")
  obtain r4 g4 where n4: "nextRandom g3 = (r4, g4)" by (cases "nextRandom g3")
  obtain r5 g5 where n5: "nextRandom g4 = (r5, g5)" by (cases "nextRandom g4")
  obtain r6 g6 where n6: "nextRandom g5 = (r6, g6)" by (cases "nextRandom g5")
  obtain r7 g7 where n7: "nextRandom g6 = (r7, g7)" by (cases "nextRandom g6")
  obtain r8 g8 where n8: "nextRandom g7 = (r8, g8)" by (cases "nextRandom g7")
  obtain r9 g9 where n9: "nextRandom g8 = (r9, g9)" by (cases "nextRandom g8")
  let ?em = "emotion props"
  from e have me: "0 \<le> mouthEnergy ?em" "mouthEnergy ?em \<le> 1"
    and ha: "0 \<le> handAmplitude ?em" "handAmplitude ?em \<le> 1"
    and gi: "0 \<le> gazeIntensity ?em" "gazeIntensity ?em \<le> 1"
    and bl: "0 \<le> browLift ?em" "browLift ?em \<le> 1"
    by (simp_all add: emotionInRange_def)
  let ?p = "fst (composePose props timestamp m w g)"
  have mo: "mouthOpen ?p = m" and mw: "mouthWidth ?p = w"
    and bk: "blink ?p = clamp (\<bar>sin (timestamp / (1300 + r2 * 400) + seed props)\<bar> ^ 12 * (0.8 + r3 * 0.4)) 0 1
                * (1 - gazeIntensity ?em * 0.2)"
    and eb: "eyebrowLift ?p = browLift ?em + m * 0.25"
    and hy: "headYaw ?p = sin (timestamp / (2300 + gazeIntensity ?em * 300) + seed props) * 0.25 +
                m * 0.08 * (gazeIntensity ?em + 0.2)"
    and hp: "headPitch ?p = sin (timestamp / (3100 + r4 * 500)) * 0.18 + (browLift ?em * 0.15 - 0.05)"
    and hr: "headRoll ?p = sin (timestamp / (4100 + r5 * 500)) * 0.14"
    and gx: "gazeX ?p = sin (timestamp / (1600 + r6 * 600)) * 0.45 * (gazeIntensity ?em + 0.3)"
    and gy: "gazeY ?p = sin (timestamp / (2100 + r7 * 700) + 0.5) * 0.35 * (gazeIntensity ?em + 0.2)"
    and hl: "handLeft ?p = m * (0.5 + handAmplitude ?em) + sin (timestamp / 800 + r8 * 2) * 0.2"
    and hR: "handRight ?p = m * (0.45 + handAmplitude ?em * 1.1) + sin (timestamp / 900 + r9 * 2) * 0.25"
    and bs: "bodySway ?p = sin (timestamp / 2500) * 0.25 + m * 0.2"
    by (simp_all add: composePose_def Let_def n1 n2 n3 n4 n5 n6 n7 n8 n9)
  have c: "0 \<le> clamp x 0 1 \<and> clamp x 0 1 \<le> 1" for x using clamp_bounds[of 0 1 x] by simp
  have blink_ok: "0 \<le> blink ?p \<and> blink ?p \<le> 1"
    unfolding bk using gi c by (intro prod_range) simp_all
  have yaw2: "0 \<le> m * 0.08 * (gazeIntensity ?em + 0.2) \<and>
              m * 0.08 * (gazeIntensity ?em + 0.2) \<le> 0.096"
    unfolding mult.assoc using m gi by (intro prod_range) simp_all
  have "0 - 0.25 \<le> headYaw ?p \<and> headYaw ?p \<le> 0.096 + 0.25"
    unfolding hy by (rule wave_range) (use yaw2 in simp_all)
  then have yaw_ok: "\<bar>headYaw ?p\<bar> \<le> 1" by (auto simp: abs_le_iff)
  have "- 0.05 - 0.18 \<le> headPitch ?p \<and> headPitch ?p \<le> 0.1 + 0.18"
    unfolding hp by (rule wave_range) (use bl in simp_all)
  then have pitch_ok: "\<bar>headPitch ?p\<bar> \<le> 1" by (auto simp: abs_le_iff)
  have "\<bar>headRoll ?p\<bar> \<le> 0.14"
    unfolding hr by (rule sin_scaled) simp
  then have roll_ok: "\<bar>headRoll ?p\<bar> \<le> 1" by (auto simp: abs_le_iff)
  have "\<bar>gazeX ?p\<bar> \<le> 0.45 * (gazeIntensity ?em + 0.3)"
    unfolding gx mult.assoc by (rule sin_scaled) (use gi in simp)
  with gi have gx_ok: "\<bar>gazeX ?p\<bar> \<le> 1" by (auto simp: abs_le_iff)
  have "\<bar>gazeY ?p\<bar> \<le> 0.35 * (gazeIntensity ?em + 0.2)"
    unfolding gy mult.assoc by (rule sin_scaled) (use gi in simp)
  with gi have gy_ok: "\<bar>gazeY ?p\<bar> \<le> 1" by (auto simp: abs_le_iff)
  have "0 - 0.25 \<le> bodySway ?p \<and> bodySway ?p \<le> 0.2 + 0.25"
    unfolding bs by (rule wave_range) (use m in simp_all)
  then have sway_ok: "\<bar>bodySway ?p\<bar> \<le> 1" by (auto simp: abs_le_iff)
  have brow_ok: "0 \<le> eyebrowLift ?p \<and> eyebrowLift ?p \<le> 1.25"
    unfolding eb using bl m by (auto simp: abs_le_iff)
  have hl2: "0 \<le> m * (0.5 + handAmplitude ?em) \<and> m * (0.5 + handAmplitude ?em) \<le> 1.5"
    using m ha by (intro prod_range) simp_all
  have "0 - 0.2 \<le> handLeft ?p \<and> handLeft ?p \<le> 1.5 + 0.2"
    unfolding hl by (rule wave_range2) (use hl2 in simp_all)
  then have hl_ok: "- 0.2 \<le> handLeft ?p \<and> handLeft ?p \<le> 1.7" by (auto simp: abs_le_iff)
  have hr2: "0 \<le> m * (0.45 + handAmplitude ?em * 1.1) \<and> m * (0.45 + handAmplitude ?em * 1.1) \<le> 1.55"
    using m ha by (intro prod_range) simp_all
  have "0 - 0.25 \<le> handRight ?p \<and> handRight ?p \<le> 1.55 + 0.25"
    unfolding hR by (rule wave_range2) (use hr2 in simp_all)
  then have hr_ok: "- 0.25 \<le> handRight ?p \<and> handRight ?p \<le> 1.8" by (auto simp: abs_le_iff)
  show ?thesis
    unfolding poseInRange_def
    using mo mw m w blink_ok yaw_ok pitch_ok roll_ok gx_ok gy_ok sway_ok brow_ok hl_ok hr_ok
    by simp
qed

lemma lipState_publishPose:
  "lipState (publishPose props timestamp m w s) = fst (composePose props timestamp m w (randomRef s))"
  by (simp add: publishPose_def requestAnimationFrame_def split_beta Let_def)

lemma lipState_shutdownPlayback: "lipState (shutdownPlayback s) = lipState s"
  by (simp add: shutdownPlayback_def cleanupRAF_def stopSpeechSynthesis_def pauseAudio_def Let_def
      split: option.splits)

lemma lipState_updateLoop_audio:
  assumes "modeRef s = AudioMode" "analyserRef s" "audioDataRef s = Some byteArray"
  shows "lipState (updateLoop props timestamp samples s) =
     fst (composePose props timestamp
       (clamp (audioRms (getByteTimeDomainData samples byteArray) * 4 +
               mouthEnergy (emotion props) * 0.35) 0.05 1)
       (clamp (audioRms (getByteTimeDomainData samples byteArray) * 2.8 + 0.25) 0.05 0.9)
       (randomRef s))"
  using assms by (simp add: updateLoop_def Let_def lipState_publishPose audioRms_def)

lemma lipState_updateLoop_text:
  assumes "\<not> (modeRef s = AudioMode \<and> analyserRef s \<and> audioDataRef s \<noteq> None)"
  shows "lipState (updateLoop props timestamp samples s) =
     (if visemeDurationRef s \<noteq> 0 \<and> (timestamp - startTimeRef s) / 1000 > visemeDurationRef s + 0.4
      then lipState s
      else fst (composePose props timestamp
             (fst (sampleViseme (visemeTimelineRef s) ((timestamp - startTimeRef s) / 1000)))
             (snd (sampleViseme (visemeTimelineRef s) ((timestamp - startTimeRef s) / 1000)))
             (randomRef s)))"
  using assms
  by (auto simp: updateLoop_def Let_def split_beta lipState_publishPose lipState_shutdownPlayback)

lemma audioRms_clipping: "audioRms (replicate 1024 0) = 1"
  unfolding audioRms_def energy_replicate by simp

lemma composePose_eyebrowLift:
  "eyebrowLift (fst (composePose props timestamp m w g)) = browLift (emotion props) + m * 0.25"
  by (simp add: composePose_def Let_def split_beta)

lemma composePose_mouthOpen: "mouthOpen (fst (composePose props timestamp m w g)) = m"
  by (simp add: composePose_def Let_def split_beta)

lemma composePose_handLeft:
  "m * (0.5 + handAmplitude (emotion props)) - 0.2 \<le> handLeft (fst (composePose props timestamp m w g))"
proof -
  have "\<exists>x. handLeft (fst (composePose props timestamp m w g)) =
          m * (0.5 + handAmplitude (emotion props)) + sin x * 0.2"
    by (simp add: composePose_def Let_def split_beta) blast
  then obtain x where "handLeft (fst (composePose props timestamp m w g)) =
          m * (0.5 + handAmplitude (emotion props)) + sin x * 0.2" ..
  moreover have "- 1 \<le> sin x" by simp
  ultimately show ?thesis by simp
qed

lemma composePose_handRight:
  "m * (0.45 + handAmplitude (emotion props) * 1.1) - 0.25
     \<le> handRight (fst (composePose props timestamp m w g))"
proof -
  have "\<exists>x. handRight (fst (composePose props timestamp m w g)) =
          m * (0.45 + handAmplitude (emotion props) * 1.1) + sin x * 0.25"
    by (simp add: composePose_def Let_def split_beta) blast
  then obtain x where "handRight (fst (composePose props timestamp m w g)) =
          m * (0.45 + handAmplitude (emotion props) * 1.1) + sin x * 0.25" ..
  moreover have "- 1 \<le> sin x" by simp
  ultimately show ?thesis by simp
qed

lemma clippingTick:
  "lipState (updateLoop exampleProps 16 (replicate 1024 0) audioSession) =
     fst (composePose exampleProps 16 1 0.9 1000000)"
proof -
  have "lipState (updateLoop exampleProps 16 (replicate 1024 0) audioSession) =
     fst (composePose exampleProps 16
       (clamp (audioRms (getByteTimeDomainData (replicate 1024 0) (replicate 1024 0)) * 4 +
               mouthEnergy (emotion exampleProps) * 0.35) 0.05 1)
       (clamp (audioRms (getByteTimeDomainData (replicate 1024 0) (replicate 1024 0)) * 2.8 + 0.25)
          0.05 0.9)
       (randomRef audioSession))"
    by (rule lipState_updateLoop_audio) (simp_all add: audioSession_eq)
  also have "getByteTimeDomainData (replicate 1024 0) (replicate 1024 (0 :: 8 word)) = replicate 1024 0"
    by (rule getByteTimeDomainData_full) simp
  finally show ?thesis
    by (simp add: audioRms_clipping clamp_def exampleProps_def audioSession_eq)
qed



section \<open>Lemmas: \<open>startPreview\<close>\<close>

lemma startPreview_speaking:
  assumes "isSpeaking s" and "\<not> forceRestart options"
  shows "startPreview props options now s =
           (s\<lparr>modeRef := (case sourceMode options of None \<Rightarrow> modeRef s | Some m \<Rightarrow> m),
              lipState := (if fromExport options then lipState s
                           else (lipState s)\<lparr>mouthOpen := 0.12, mouthWidth := 0.2, handLeft := 0,
                                              handRight := 0, bodySway := 0\<rparr>)\<rparr>,
            None)"
  using assms by (simp add: startPreview_def resetLipState_def Let_def)

lemma updateLoop_audio_fields:
  assumes "modeRef s = AudioMode" "analyserRef s" "audioDataRef s = Some byteArray"
  shows "isSpeaking (updateLoop props timestamp samples s) = isSpeaking s \<and>
         modeRef (updateLoop props timestamp samples s) = modeRef s \<and>
         startTimeRef (updateLoop props timestamp samples s) = startTimeRef s"
  using assms
  by (simp add: updateLoop_def publishPose_def requestAnimationFrame_def Let_def split_beta)

lemma clippedSession_fields:
  "isSpeaking clippedSession \<and> modeRef clippedSession = AudioMode \<and>
   mouthOpen (lipState clippedSession) = 1"
proof -
  have "isSpeaking clippedSession = isSpeaking audioSession \<and>
        modeRef clippedSession = modeRef audioSession \<and>
        startTimeRef clippedSession = startTimeRef audioSession"
    unfolding clippedSession_def
    by (rule updateLoop_audio_fields[where byteArray = "replicate 1024 0"])
       (simp_all add: audioSession_eq)
  moreover have "mouthOpen (lipState clippedSession) = 1"
    unfolding clippedSession_def clippingTick by (simp add: composePose_mouthOpen)
  ultimately show ?thesis by (simp add: audioSession_eq)
qed

lemma ensureAnalyser_refused:
  assumes "\<not> hasAudioLoaded s \<or> \<not> hasWindow s \<or> audioRef s = None"
  shows "\<not> fst (ensureAnalyser s) \<or> \<not> hasAudioLoaded (snd (ensureAnalyser s))"
  using assms by (auto simp: ensureAnalyser_def ensureAudioContext_def Let_def split_beta)

lemma ensureAnalyser_frame:
  "suspendedCalls (snd (ensureAnalyser s)) = suspendedCalls s \<and>
   frameCallbacks (snd (ensureAnalyser s)) = frameCallbacks s \<and>
   nextFrameId (snd (ensureAnalyser s)) = nextFrameId s \<and>
   rafRef (snd (ensureAnalyser s)) = rafRef s \<and>
   audioRef (snd (ensureAnalyser s)) = audioRef s \<and>
   isSpeaking (snd (ensureAnalyser s)) = isSpeaking s \<and>
   visemeTimelineRef (snd (ensureAnalyser s)) = visemeTimelineRef s \<and>
   visemeDurationRef (snd (ensureAnalyser s)) = visemeDurationRef s \<and>
   speechQueue (snd (ensureAnalyser s)) = speechQueue s \<and>
   ttsUtteranceRef (snd (ensureAnalyser s)) = ttsUtteranceRef s \<and>
   modeRef (snd (ensureAnalyser s)) = modeRef s \<and>
   lipState (snd (ensureAnalyser s)) = lipState s \<and>
   startTimeRef (snd (ensureAnalyser s)) = startTimeRef s \<and>
   hasAudioLoaded (snd (ensureAnalyser s)) = hasAudioLoaded s"
  by (simp add: ensureAnalyser_def ensureAudioContext_def Let_def split_beta)

lemma startPreviewAudio_refused:
  assumes "\<not> hasAudioLoaded s \<or> \<not> hasWindow s \<or> audioRef s = None"
  shows "startPreviewAudio s = (snd (ensureAnalyser s), None)"
  using ensureAnalyser_refused[OF assms] by (auto simp: startPreviewAudio_def split_beta)

lemma cleanupRAF_frame:
  "suspendedCalls (cleanupRAF s) = suspendedCalls s \<and>
   set (frameCallbacks (cleanupRAF s)) \<subseteq> set (frameCallbacks s) \<and>
   nextFrameId (cleanupRAF s) = nextFrameId s \<and>
   (rafRef (cleanupRAF s) = None \<or> rafRef (cleanupRAF s) = rafRef s) \<and>
   audioRef (cleanupRAF s) = audioRef s \<and>
   isSpeaking (cleanupRAF s) = isSpeaking s \<and>
   visemeTimelineRef (cleanupRAF s) = visemeTimelineRef s \<and>
   visemeDurationRef (cleanupRAF s) = visemeDurationRef s \<and>
   speechQueue (cleanupRAF s) = speechQueue s \<and>
   ttsUtteranceRef (cleanupRAF s) = ttsUtteranceRef s \<and>
   modeRef (cleanupRAF s) = modeRef s \<and>
   lipState (cleanupRAF s) = lipState s \<and>
   hasAudioLoaded (cleanupRAF s) = hasAudioLoaded s \<and>
   hasWindow (cleanupRAF s) = hasWindow s"
  by (auto simp: cleanupRAF_def split: option.splits)

lemma startPreview_audio_result:
  assumes mode: "(case sourceMode options of None \<Rightarrow> modeRef s | Some m \<Rightarrow> m) = AudioMode"
    and pre: "\<not> hasAudioLoaded s \<or> \<not> hasWindow s \<or> audioRef s = None"
  shows "startPreview props options now s =
     ((if \<not> forceRestart options \<and> isSpeaking s
       then (if fromExport options then s\<lparr>modeRef := AudioMode\<rparr>
             else resetLipState (s\<lparr>modeRef := AudioMode\<rparr>))
       else snd (ensureAnalyser
              ((cleanupRAF (if fromExport options then s\<lparr>modeRef := AudioMode\<rparr>
                            else resetLipState (s\<lparr>modeRef := AudioMode\<rparr>)))
                 \<lparr>startTimeRef := now\<rparr>))),
      None)"
proof -
  let ?s2 = "if fromExport options then s\<lparr>modeRef := AudioMode\<rparr>
             else resetLipState (s\<lparr>modeRef := AudioMode\<rparr>)"
  let ?s4 = "(cleanupRAF ?s2)\<lparr>startTimeRef := now\<rparr>"
  have "\<not> hasAudioLoaded ?s4 \<or> \<not> hasWindow ?s4 \<or> audioRef ?s4 = None"
    using pre by (simp add: cleanupRAF_frame resetLipState_def)
  then have "startPreviewAudio ?s4 = (snd (ensureAnalyser ?s4), None)"
    by (rule startPreviewAudio_refused)
  then show ?thesis
    using mode
    by (cases "fromExport options") (simp_all add: startPreview_def Let_def resetLipState_def)
qed

lemma textSession_fields:
  "isSpeaking textSession \<and> rafRef textSession = Some 1 \<and> frameCallbacks textSession = [1] \<and>
   \<not> hasAudioLoaded textSession \<and> modeRef textSession = TextMode \<and>
   speechQueue textSession \<noteq> []"
  by (simp add: textSession_def textStart_def exampleProps_def engine_defs Let_def)

lemma startPreview_text_result:
  assumes "(case sourceMode options of None \<Rightarrow> modeRef s | Some m \<Rightarrow> m) = TextMode"
    and "forceRestart options \<or> \<not> isSpeaking s"
  shows "startPreview props options now s =
     (startPreviewText props
        ((cleanupRAF (if fromExport options then s\<lparr>modeRef := TextMode\<rparr>
                      else resetLipState (s\<lparr>modeRef := TextMode\<rparr>)))\<lparr>startTimeRef := now\<rparr>),
      None)"
  using assms
  by (cases "fromExport options") (auto simp: startPreview_def Let_def resetLipState_def)

lemma startPreviewText_stores:
  assumes "ttsSupported s"
  shows "visemeTimelineRef (startPreviewText props s) =
           frames (buildVisemeTimeline (previewText (script props)) (emotion props) (seed props)) \<and>
         visemeDurationRef (startPreviewText props s) =
           duration (buildVisemeTimeline (previewText (script props)) (emotion props) (seed props)) \<and>
         (\<exists>u. ttsUtteranceRef (startPreviewText props s) = Some u \<and>
              speechQueue (startPreviewText props s) = [u] \<and>
              utteranceText u = previewText (script props))"
  using assms
  by (simp add: startPreviewText_def stopSpeechSynthesis_def requestAnimationFrame_def Let_def
      split_beta split: option.splits)

lemma previewText_blank:
  "\<forall>c \<in> set scr. isWhiteSpace c \<Longrightarrow> previewText scr = js ''Hello, the stage is ready.''"
  by (simp add: previewText_def trim_whitespace)

lemma ttsSupported_prepared:
  "ttsSupported ((cleanupRAF (if fromExport options then s\<lparr>modeRef := TextMode\<rparr>
      else resetLipState (s\<lparr>modeRef := TextMode\<rparr>)))\<lparr>startTimeRef := now\<rparr>) = ttsSupported s"
  by (simp add: cleanupRAF_def resetLipState_def split: option.splits)


section \<open>Lemmas: overlapping starts\<close>

lemma suspended_twice:
  "suspendedCalls (runEvents exampleProps
       [LoadAudioFile 0, StartPreview audioRestart 0, StartPreview audioRestart 1]
       (initialEngine exampleProps True True True)) = [AwaitAudioPlay, AwaitAudioPlay] \<and>
   frameCallbacks (runEvents exampleProps
       [LoadAudioFile 0, StartPreview audioRestart 0, StartPreview audioRestart 1]
       (initialEngine exampleProps True True True)) = []"
  by (simp add: audioRestart_def engine_defs Let_def)

lemma overlappingStarts_fields:
  "frameCallbacks overlappingStarts = [1, 2] \<and> rafRef overlappingStarts = Some 2 \<and>
   suspendedCalls overlappingStarts = [] \<and> modeRef overlappingStarts = AudioMode \<and>
   analyserRef overlappingStarts \<and> audioDataRef overlappingStarts = Some (replicate 1024 0) \<and>
   nextFrameId overlappingStarts = 3 \<and> isSpeaking overlappingStarts"
  by (simp add: overlappingStarts_def audioRestart_def engine_defs Let_def)

lemma updateLoop_audio_clock:
  assumes "modeRef s = AudioMode" "analyserRef s" "audioDataRef s = Some byteArray"
  shows "frameCallbacks (updateLoop props timestamp samples s) = frameCallbacks s @ [nextFrameId s] \<and>
         rafRef (updateLoop props timestamp samples s) = Some (nextFrameId s) \<and>
         nextFrameId (updateLoop props timestamp samples s) = nextFrameId s + 1 \<and>
         modeRef (updateLoop props timestamp samples s) = AudioMode \<and>
         analyserRef (updateLoop props timestamp samples s) \<and>
         (\<exists>b. audioDataRef (updateLoop props timestamp samples s) = Some b) \<and>
         audioRef (updateLoop props timestamp samples s) = audioRef s \<and>
         ttsSupported (updateLoop props timestamp samples s) = ttsSupported s \<and>
         ttsUtteranceRef (updateLoop props timestamp samples s) = ttsUtteranceRef s"
  using assms
  by (simp add: updateLoop_def publishPose_def requestAnimationFrame_def Let_def split_beta)

lemma frameCallbacks_stopPreview:
  "frameCallbacks (stopPreview s) = frameCallbacks (cleanupRAF s)"
  by (simp add: stopPreview_def resetLipState_def shutdownPlayback_def stopSpeechSynthesis_def
      pauseAudio_def Let_def split: option.splits)

lemma overlappingStarts_frame:
  "frameCallbacks (applyEvent exampleProps (AnimationFrame 16 (replicate 1024 0)) overlappingStarts) = [3, 4] \<and>
   rafRef (applyEvent exampleProps (AnimationFrame 16 (replicate 1024 0)) overlappingStarts) = Some 4"
proof -
  note f = overlappingStarts_fields
  let ?sa = "overlappingStarts\<lparr>frameCallbacks := removeAll 1 (frameCallbacks overlappingStarts)\<rparr>"
  let ?u1 = "updateLoop exampleProps 16 (replicate 1024 0) ?sa"
  have a: "frameCallbacks ?u1 = frameCallbacks ?sa @ [nextFrameId ?sa] \<and>
         rafRef ?u1 = Some (nextFrameId ?sa) \<and>
         nextFrameId ?u1 = nextFrameId ?sa + 1 \<and>
         modeRef ?u1 = AudioMode \<and> analyserRef ?u1 \<and>
         (\<exists>b. audioDataRef ?u1 = Some b) \<and>
         audioRef ?u1 = audioRef ?sa \<and>
         ttsSupported ?u1 = ttsSupported ?sa \<and>
         ttsUtteranceRef ?u1 = ttsUtteranceRef ?sa"
    by (rule updateLoop_audio_clock[where byteArray = "replicate 1024 0"]) (use f in simp_all)
  then have a': "frameCallbacks ?u1 = [2, 3]" "nextFrameId ?u1 = 4" "modeRef ?u1 = AudioMode"
    "analyserRef ?u1" using f by simp_all
  from a obtain b where b: "audioDataRef ?u1 = Some b" by blast
  let ?sb = "?u1\<lparr>frameCallbacks := removeAll 2 (frameCallbacks ?u1)\<rparr>"
  let ?u2 = "updateLoop exampleProps 16 (replicate 1024 0) ?sb"
  have c: "frameCallbacks ?u2 = frameCallbacks ?sb @ [nextFrameId ?sb] \<and>
         rafRef ?u2 = Some (nextFrameId ?sb) \<and>
         nextFrameId ?u2 = nextFrameId ?sb + 1 \<and>
         modeRef ?u2 = AudioMode \<and> analyserRef ?u2 \<and>
         (\<exists>b. audioDataRef ?u2 = Some b) \<and>
         audioRef ?u2 = audioRef ?sb \<and>
         ttsSupported ?u2 = ttsSupported ?sb \<and>
         ttsUtteranceRef ?u2 = ttsUtteranceRef ?sb"
    by (rule updateLoop_audio_clock[where byteArray = b]) (use a' b in simp_all)
  then have c': "frameCallbacks ?u2 = [3, 4]" "rafRef ?u2 = Some 4" using a' by simp_all
  have "applyEvent exampleProps (AnimationFrame 16 (replicate 1024 0)) overlappingStarts = ?u2"
    using f a' by (simp add: applyEvent_def)
  with c' show ?thesis by simp
qed


section \<open>Lemmas: the export\<close>

lemmas export_defs =
  exportVideo_def exportVideoContinue_def exportVideoReject_def exportVideoFinish_def
  convertWebmToMp4_def rejectPlay_def EXPORT_DURATION_MS_def

lemma exportCalls_cleanupRAF: "exportCalls (cleanupRAF s) = exportCalls s"
  by (simp add: cleanupRAF_def split: option.splits)

lemma exportCalls_stopSpeechSynthesis: "exportCalls (stopSpeechSynthesis s) = exportCalls s"
  by (simp add: stopSpeechSynthesis_def split: option.splits)

lemma exportCalls_resetLipState: "exportCalls (resetLipState s) = exportCalls s"
  by (simp add: resetLipState_def)

lemma exportCalls_publishPose: "exportCalls (publishPose props timestamp m w s) = exportCalls s"
  by (simp add: publishPose_def requestAnimationFrame_def Let_def split: prod.splits)

lemma exportCalls_ensureAnalyser: "exportCalls (snd (ensureAnalyser s)) = exportCalls s"
  by (simp add: ensureAnalyser_def ensureAudioContext_def Let_def split: prod.splits)

lemma exportCalls_startPreviewPlay: "exportCalls (fst (startPreviewPlay s)) = exportCalls s"
  by (simp add: startPreviewPlay_def split: option.splits)

lemma exportCalls_startPreviewArm: "exportCalls (startPreviewArm s) = exportCalls s"
  by (simp add: startPreviewArm_def requestAnimationFrame_def Let_def)

lemma exportCalls_startPreviewAudio: "exportCalls (fst (startPreviewAudio s)) = exportCalls s"
proof (cases "ensureAnalyser s")
  case (Pair analyser s1)
  with exportCalls_ensureAnalyser[of s] have "exportCalls s1 = exportCalls s" by simp
  with Pair show ?thesis
    by (simp add: startPreviewAudio_def exportCalls_startPreviewPlay)
qed

lemma exportCalls_startPreviewText: "exportCalls (startPreviewText props s) = exportCalls s"
  by (simp add: startPreviewText_def requestAnimationFrame_def Let_def
      exportCalls_stopSpeechSynthesis)

lemma exportCalls_startPreview:
  "exportCalls (fst (startPreview props options now s)) = exportCalls s"
  by (simp add: startPreview_def Let_def exportCalls_startPreviewAudio
      exportCalls_startPreviewText exportCalls_cleanupRAF exportCalls_resetLipState)

lemma exportCalls_resumeCall: "exportCalls (fst (resumeCall c s)) = exportCalls s"
  by (cases c) (simp_all add: resumeCall_def exportCalls_startPreviewPlay
      exportCalls_startPreviewArm)

lemma exportCalls_suspend: "exportCalls (suspend r) = exportCalls (fst r)"
  by (simp add: suspend_def split: prod.splits option.splits)

lemma rejectPlay_final: "isFinal (stage call) \<Longrightarrow> rejectPlay call = call"
  by (cases "stage call") (simp_all add: rejectPlay_def)

lemma callIs_pauseAudio:
  "isFinal (stage call) \<Longrightarrow> callIs k call s \<Longrightarrow> callIs k call (pauseAudio s)"
  by (auto simp: callIs_def pauseAudio_def rejectPlay_final split: option.splits)

lemma callIs_shutdownPlayback:
  assumes "isFinal (stage call)" and "callIs k call s"
  shows "callIs k call (shutdownPlayback s)"
proof -
  have a: "callIs k call (stopSpeechSynthesis (cleanupRAF s))"
    using assms(2)
    by (simp add: callIs_def exportCalls_stopSpeechSynthesis exportCalls_cleanupRAF)
  have b: "callIs k call (pauseAudio (stopSpeechSynthesis (cleanupRAF s)))"
    by (rule callIs_pauseAudio[OF assms(1) a])
  show ?thesis
    using a b
    by (simp add: shutdownPlayback_def Let_def callIs_def split: option.splits)
qed

lemma callIs_updateLoop:
  assumes "isFinal (stage call)" and "callIs k call s"
  shows "callIs k call (updateLoop props timestamp samples s)"
  using callIs_shutdownPlayback[OF assms] assms(2)
  by (simp add: updateLoop_def Let_def callIs_def exportCalls_publishPose split: prod.splits)

lemma callIs_runFrameCallbacks:
  "isFinal (stage call) \<Longrightarrow> callIs k call s \<Longrightarrow>
   callIs k call (runFrameCallbacks props timestamp samples hs s)"
proof (induction hs arbitrary: s)
  case Nil
  then show ?case by simp
next
  case (Cons h hs)
  have "callIs k call (s\<lparr>frameCallbacks := removeAll h (frameCallbacks s)\<rparr>)"
    using Cons.prems(2) by (simp add: callIs_def)
  then have "callIs k call (updateLoop props timestamp samples
      (s\<lparr>frameCallbacks := removeAll h (frameCallbacks s)\<rparr>))"
    by (rule callIs_updateLoop[OF Cons.prems(1)])
  with Cons show ?case by simp
qed

lemma callIs_stopPreview:
  "isFinal (stage call) \<Longrightarrow> callIs k call s \<Longrightarrow> callIs k call (stopPreview s)"
  using callIs_shutdownPlayback[of call k s]
  by (simp add: stopPreview_def callIs_def exportCalls_resetLipState)

lemma callIs_loadAudioFile:
  assumes "isFinal (stage call)" and "callIs k call s"
  shows "callIs k call (loadAudioFile file s)"
proof (cases "hasWindow s \<and> audioRef s \<noteq> None")
  case False
  with assms(2) show ?thesis by (auto simp: loadAudioFile_def split: option.splits)
next
  case True
  then obtain audio where a: "audioRef s = Some audio" by auto
  let ?s1 = "s\<lparr>objectUrlRef := Some file, audioRef := Some (audio\<lparr>src := Some file\<rparr>)\<rparr>"
  have "callIs k call ?s1" using assms(2) by (simp add: callIs_def)
  then have "callIs k call (pauseAudio ?s1)" by (rule callIs_pauseAudio[OF assms(1)])
  with True a show ?thesis by (simp add: loadAudioFile_def Let_def callIs_def)
qed

lemma callIs_exportVideo:
  assumes "callIs k call s"
  shows "callIs k call (exportVideo props now failure s)"
proof (cases "startPreview props \<lparr>forceRestart = True, sourceMode = None, fromExport = True\<rparr> now
    (s\<lparr>exportResolveRef := Some (nextPromiseId s), nextPromiseId := nextPromiseId s + 1\<rparr>)")
  case (Pair s2 c)
  from exportCalls_startPreview[of props "\<lparr>forceRestart = True, sourceMode = None, fromExport = True\<rparr>"
      now "s\<lparr>exportResolveRef := Some (nextPromiseId s), nextPromiseId := nextPromiseId s + 1\<rparr>"]
    Pair
  have "exportCalls s2 = exportCalls s" by simp
  with Pair assms show ?thesis
    by (auto simp: exportVideo_def Let_def callIs_def nth_append)
qed

lemma callIs_exportVideoContinue:
  assumes "isFinal (stage call)" and "callIs k call s"
  shows "callIs k call (exportVideoContinue j s)"
proof (cases "j < length (exportCalls s)")
  case False
  with assms(2) show ?thesis by (simp add: exportVideoContinue_def)
next
  case True
  show ?thesis
  proof (cases "stage (exportCalls s ! j)")
    case (AwaitStartPreview c)
    with assms have jk: "j \<noteq> k" by (auto simp: callIs_def)
    obtain s1 c1 where r: "resumeCall c s = (s1, c1)" by (cases "resumeCall c s")
    with exportCalls_resumeCall[of c s] have "exportCalls s1 = exportCalls s" by simp
    with True AwaitStartPreview r assms(2) jk show ?thesis
      by (simp add: exportVideoContinue_def callIs_def)
  qed (use True assms(2) in \<open>simp_all add: exportVideoContinue_def\<close>)
qed

lemma callIs_exportVideoReject:
  assumes "isFinal (stage call)" and "callIs k call s"
  shows "callIs k call (exportVideoReject j s)"
proof (cases "j < length (exportCalls s)")
  case False
  with assms(2) show ?thesis by (simp add: exportVideoReject_def)
next
  case True
  show ?thesis
  proof (cases "stage (exportCalls s ! j)")
    case (AwaitStartPreview c)
    with assms have jk: "j \<noteq> k" by (auto simp: callIs_def)
    with True AwaitStartPreview assms(2) show ?thesis
      by (simp add: exportVideoReject_def callIs_def)
  qed (use True assms(2) in \<open>simp_all add: exportVideoReject_def\<close>)
qed

lemma callIs_exportVideoFinish:
  assumes "isFinal (stage call)" and "callIs k call s"
  shows "callIs k call (exportVideoFinish j recorderData conversion s)"
proof (cases "j < length (exportCalls s)")
  case False
  with assms(2) show ?thesis by (simp add: exportVideoFinish_def)
next
  case True
  show ?thesis
  proof (cases "stage (exportCalls s ! j)")
    case (AwaitTimer delay)
    with assms have jk: "j \<noteq> k" by (auto simp: callIs_def)
    let ?s1 = "s\<lparr>exportCalls := (exportCalls s)[j := (exportCalls s ! j)\<lparr>recorder := Some Inactive\<rparr>]\<rparr>"
    have "callIs k call ?s1" using assms(2) jk by (simp add: callIs_def)
    then have "callIs k call (shutdownPlayback ?s1)" by (rule callIs_shutdownPlayback[OF assms(1)])
    with True AwaitTimer jk show ?thesis
      by (simp add: exportVideoFinish_def Let_def callIs_def)
  qed (use True assms(2) in \<open>simp_all add: exportVideoFinish_def\<close>)
qed

lemma callIs_applyEvent:
  assumes "isFinal (stage call)" and "callIs k call s"
  shows "callIs k call (applyEvent props e s)"
proof (cases e)
  case (LoadAudioFile f)
  with callIs_loadAudioFile[OF assms] show ?thesis by (simp add: applyEvent_def)
next
  case (RegisterStageCanvas canvas)
  with assms(2) show ?thesis by (simp add: applyEvent_def registerStageCanvas_def callIs_def)
next
  case (StartPreview options now)
  with assms(2) show ?thesis
    by (simp add: applyEvent_def callIs_def exportCalls_suspend exportCalls_startPreview)
next
  case (Continue j)
  have "exportCalls (fst (resumeCall c (s\<lparr>suspendedCalls := l\<rparr>))) = exportCalls s" for c l
    by (simp add: exportCalls_resumeCall)
  with Continue assms(2) show ?thesis
    by (simp add: applyEvent_def callIs_def exportCalls_suspend)
next
  case (Reject j)
  with assms(2) show ?thesis by (simp add: applyEvent_def callIs_def)
next
  case (AnimationFrame timestamp samples)
  with callIs_runFrameCallbacks[OF assms] show ?thesis by (simp add: applyEvent_def)
next
  case StopPreview
  with callIs_stopPreview[OF assms] show ?thesis by (simp add: applyEvent_def)
next
  case UtteranceEnd
  have "callIs k call (s\<lparr>speechQueue := tl (speechQueue s)\<rparr>)"
    using assms(2) by (simp add: callIs_def)
  then have "callIs k call (shutdownPlayback (s\<lparr>speechQueue := tl (speechQueue s)\<rparr>))"
    by (rule callIs_shutdownPlayback[OF assms(1)])
  with UtteranceEnd assms(2) show ?thesis by (simp add: applyEvent_def)
next
  case AudioEnded
  with callIs_shutdownPlayback[OF assms] assms(2) show ?thesis
    by (simp add: applyEvent_def split: option.splits)
next
  case (ExportVideo now failure)
  with callIs_exportVideo[OF assms(2)] show ?thesis by (simp add: applyEvent_def)
next
  case (ExportContinue j)
  with callIs_exportVideoContinue[OF assms] show ?thesis by (simp add: applyEvent_def)
next
  case (ExportReject j)
  with callIs_exportVideoReject[OF assms] show ?thesis by (simp add: applyEvent_def)
next
  case (ExportTimer j recorderData conversion)
  with callIs_exportVideoFinish[OF assms] show ?thesis by (simp add: applyEvent_def)
qed

lemma callIs_runEvents:
  "isFinal (stage call) \<Longrightarrow> callIs k call s \<Longrightarrow> callIs k call (runEvents props es s)"
proof (induction es arbitrary: s)
  case Nil
  then show ?case by (simp add: runEvents_def)
next
  case (Cons e es)
  from Cons.IH[OF Cons.prems(1) callIs_applyEvent[OF Cons.prems]] show ?case
    by (simp add: runEvents_def)
qed

lemma rejectedExport_fields:
  "exportCalls rejectedExport =
     [\<lparr>exportPromise = Some 0, recorder = Some Recording, stage = Thrown\<rparr>] \<and>
   exportResolveRef rejectedExport = Some 0 \<and> resolvedPromises rejectedExport = [] \<and>
   \<not> isSpeaking rejectedExport \<and> modeRef rejectedExport = AudioMode \<and>
   hasAudioLoaded rejectedExport \<and> stageCanvasRef rejectedExport"
  by (simp add: rejectedExport_def audioStart_def engine_defs export_defs Let_def)

lemma overlappingExports_fields:
  "exportCalls overlappingExports =
     [\<lparr>exportPromise = Some 0, recorder = Some Inactive, stage = AwaitExportPromise\<rparr>,
      \<lparr>exportPromise = Some 1, recorder = Some Inactive,
        stage = Returned (Some (Blob [[1, 2, 3]] ''video/webm''))\<rparr>] \<and>
   exportResolveRef overlappingExports = None \<and> resolvedPromises overlappingExports = [1] \<and>
   \<not> isSpeaking overlappingExports"
  by (simp add: overlappingExports_def engine_defs export_defs Let_def)

lemma exportCalls_pauseAudio_timer:
  assumes "k < length (exportCalls s)" and "stage (exportCalls s ! k) = AwaitTimer d"
  shows "k < length (exportCalls (pauseAudio s)) \<and> exportCalls (pauseAudio s) ! k = exportCalls s ! k"
  using assms by (auto simp: pauseAudio_def rejectPlay_def split: option.splits)

lemma shutdownPlayback_timer:
  assumes "k < length (exportCalls s)" and "stage (exportCalls s ! k) = AwaitTimer d"
  shows "k < length (exportCalls (shutdownPlayback s)) \<and>
         exportCalls (shutdownPlayback s) ! k = exportCalls s ! k"
proof -
  let ?s2 = "stopSpeechSynthesis (cleanupRAF s)"
  have e: "exportCalls ?s2 = exportCalls s"
    by (simp add: exportCalls_stopSpeechSynthesis exportCalls_cleanupRAF)
  with assms exportCalls_pauseAudio_timer[of k ?s2 d]
  have "k < length (exportCalls (pauseAudio ?s2)) \<and> exportCalls (pauseAudio ?s2) ! k = exportCalls s ! k"
    by simp
  with assms e show ?thesis
    by (simp add: shutdownPlayback_def Let_def split: option.splits)
qed

lemma shutdownPlayback_resolves:
  assumes "exportResolveRef s = Some p \<or> p \<in> set (resolvedPromises s)"
  shows "p \<in> set (resolvedPromises (shutdownPlayback s)) \<and> \<not> isSpeaking (shutdownPlayback s) \<and>
         exportResolveRef (shutdownPlayback s) = None"
  using assms
  by (auto simp: shutdownPlayback_def Let_def cleanupRAF_def stopSpeechSynthesis_def pauseAudio_def
      split: option.splits)

lemma exportVideoFinish_returns:
  assumes "k < length (exportCalls s)" and "stage (exportCalls s ! k) = AwaitTimer d"
    and "exportPromise (exportCalls s ! k) = Some p"
    and "exportResolveRef s = Some p \<or> p \<in> set (resolvedPromises s)"
    and "hasWindow s"
  shows "let webmBlob = Blob (filter (\<lambda>d. length d > 0) recorderData) ''video/webm'';
             s' = exportVideoFinish k recorderData conversion s
         in stage (exportCalls s' ! k) =
              Returned (Some (case conversion webmBlob of
                                None \<Rightarrow> webmBlob
                              | Some bytes \<Rightarrow> Blob [bytes] ''video/mp4'')) \<and>
            recorder (exportCalls s' ! k) = Some Inactive \<and>
            \<not> isSpeaking s' \<and> exportResolveRef s' = None"
proof -
  let ?s1 = "s\<lparr>exportCalls := (exportCalls s)[k := (exportCalls s ! k)\<lparr>recorder := Some Inactive\<rparr>]\<rparr>"
  let ?s2 = "shutdownPlayback ?s1"
  have a: "k < length (exportCalls ?s1)" "stage (exportCalls ?s1 ! k) = AwaitTimer d"
    using assms(1,2) by simp_all
  from shutdownPlayback_timer[OF a]
  have c: "k < length (exportCalls ?s2)"
    "exportCalls ?s2 ! k = (exportCalls s ! k)\<lparr>recorder := Some Inactive\<rparr>"
    using assms(1) by simp_all
  have "exportResolveRef ?s1 = Some p \<or> p \<in> set (resolvedPromises ?s1)"
    using assms(4) by simp
  from shutdownPlayback_resolves[OF this]
  have r: "p \<in> set (resolvedPromises ?s2)" "\<not> isSpeaking ?s2" "exportResolveRef ?s2 = None"
    by simp_all
  show ?thesis
    using assms(1,2,3,5) c r
    by (simp add: exportVideoFinish_def Let_def convertWebmToMp4_def split: option.splits)
qed


section \<open>Lemmas: the text session\<close>

lemma frameOk_mono: "frameOk lo hi f \<Longrightarrow> lo' \<le> lo \<Longrightarrow> hi \<le> hi' \<Longrightarrow> frameOk lo' hi' f"
  by (auto simp: frameOk_def)

lemma textSession_timeline:
  "visemeTimelineRef textSession =
     frames (buildVisemeTimeline (previewText (script exampleProps)) (emotion exampleProps)
       (seed exampleProps)) \<and>
   audioDataRef textSession = None"
  by (simp add: textSession_def textStart_def engine_defs Let_def)

lemma textSession_frames: "\<forall>f \<in> set (visemeTimelineRef textSession). frameOk 0 1 f"
proof
  fix f assume "f \<in> set (visemeTimelineRef textSession)"
  then have "frameOk (1/20) 1 f" using frames_range textSession_timeline by auto
  then show "frameOk 0 1 f" by (rule frameOk_mono) simp_all
qed

lemma removeAll_only: "set xs \<subseteq> {a} \<Longrightarrow> removeAll a xs = []"
  by (induction xs) auto

lemma startPreviewText_arms:
  assumes "ttsSupported t"
  shows "frameCallbacks (startPreviewText props t) = frameCallbacks t @ [nextFrameId t] \<and>
         rafRef (startPreviewText props t) = Some (nextFrameId t)"
  using assms
  by (simp add: startPreviewText_def stopSpeechSynthesis_def requestAnimationFrame_def Let_def
      split_beta split: option.splits)

lemma text_start_single_clock:
  assumes "ttsSupported s"
    and "(case sourceMode options of None \<Rightarrow> modeRef s | Some m \<Rightarrow> m) = TextMode"
    and "forceRestart options \<or> \<not> isSpeaking s"
    and "set (frameCallbacks s) \<subseteq> (case rafRef s of None \<Rightarrow> {} | Some h \<Rightarrow> {h})"
    and "rafRef s \<noteq> Some 0"
  shows "frameCallbacks (fst (startPreview props options now s)) = [nextFrameId s] \<and>
         rafRef (fst (startPreview props options now s)) = Some (nextFrameId s) \<and>
         snd (startPreview props options now s) = None"
proof -
  let ?s2 = "if fromExport options then s\<lparr>modeRef := TextMode\<rparr>
             else resetLipState (s\<lparr>modeRef := TextMode\<rparr>)"
  let ?s4 = "(cleanupRAF ?s2)\<lparr>startTimeRef := now\<rparr>"
  have c: "frameCallbacks ?s4 = [] \<and> nextFrameId ?s4 = nextFrameId s \<and> ttsSupported ?s4"
    using assms(1,4,5)
    by (cases "rafRef s") (auto simp: cleanupRAF_def resetLipState_def removeAll_only)
  from c have "ttsSupported ?s4" by simp
  from startPreviewText_arms[OF this, of props] c
  have "frameCallbacks (startPreviewText props ?s4) = [nextFrameId s] \<and>
        rafRef (startPreviewText props ?s4) = Some (nextFrameId s)"
    by simp
  then show ?thesis by (simp add: startPreview_text_result[OF assms(2,3)])
qed


section \<open>The claims\<close>

text \<open>
  C1. The synthesizer is deterministic. The generator is created inside the call, from the
  seed, so a call has no state left by another one, and the timeline is a function of the
  arguments: two calls with the same text, emotion and seed give the same frames (so the
  same number of them, with the same time, mouth and width at every index) and the same
  duration. The timeline in fact depends on less: on the word list of the text, on the
  fields \<open>mouthEnergy\<close> and \<open>handAmplitude\<close> of the emotion, and on the seed.
\<close>

theorem buildVisemeTimeline_deterministic:
  assumes "getWords text1 = getWords text2"
    and "mouthEnergy e1 = mouthEnergy e2" and "handAmplitude e1 = handAmplitude e2"
    and "seed1 = seed2"
  shows "frames (buildVisemeTimeline text1 e1 seed1) = frames (buildVisemeTimeline text2 e2 seed2) \<and>
         duration (buildVisemeTimeline text1 e1 seed1) = duration (buildVisemeTimeline text2 e2 seed2)"
  using buildVisemeTimeline_cong[OF assms(1-3)] assms(4) by simp


theorem buildVisemeTimeline_deterministic_witness:
  "frames (buildVisemeTimeline (js ''Hey there'')
      \<lparr>mouthEnergy = 0.5, handAmplitude = 0.25, gazeIntensity = 0, browLift = 0\<rparr> 7) =
   frames (buildVisemeTimeline (js ''  Hey   there '')
      \<lparr>mouthEnergy = 0.5, handAmplitude = 0.25, gazeIntensity = 1, browLift = 1\<rparr> 7) \<and>
   duration (buildVisemeTimeline (js ''Hey there'')
      \<lparr>mouthEnergy = 0.5, handAmplitude = 0.25, gazeIntensity = 0, browLift = 0\<rparr> 7) =
   duration (buildVisemeTimeline (js ''  Hey   there '')
      \<lparr>mouthEnergy = 0.5, handAmplitude = 0.25, gazeIntensity = 1, browLift = 1\<rparr> 7)"
  by (rule buildVisemeTimeline_deterministic) (simp_all add: getWords_hey getWords_spaced)

text \<open>
  C2, as amended. A tick of \<open>updateLoop\<close> either publishes no pose (the timeline is over and the
  tick ends the session) or publishes a pose within the ranges of \<open>poseInRange\<close>, for every
  timestamp, start time, generator state and audio buffer, when the fields of the emotion lie
  in \<open>[0, 1]\<close> and the frames of the timeline have mouth and width in \<open>[0, 1]\<close> (as the
  synthesized ones do, \<open>frames_range\<close>). Only \<open>mouthOpen\<close>, \<open>mouthWidth\<close> and \<open>blink\<close> are
  clamped; the eyebrows reach 1.25 and the hands 1.7 and 1.8. The audio buffer is taken to be
  non-empty, as the one the engine allocates is.
\<close>

theorem updateLoop_pose_ranges:
  assumes "emotionInRange (emotion props)"
    and "\<forall>f \<in> set (visemeTimelineRef s). frameOk 0 1 f"
    and "audioDataRef s \<noteq> Some []"
  shows "lipState (updateLoop props timestamp samples s) = lipState s \<or>
         poseInRange (lipState (updateLoop props timestamp samples s))"
proof (cases "modeRef s = AudioMode \<and> analyserRef s \<and> audioDataRef s \<noteq> None")
  case True
  then obtain byteArray where b: "audioDataRef s = Some byteArray" by auto
  have m: "0 \<le> clamp x 0.05 1 \<and> clamp x 0.05 1 \<le> 1" for x
    using clamp_bounds[of "0.05" 1 x] by simp
  have w: "0 \<le> clamp x 0.05 0.9 \<and> clamp x 0.05 0.9 \<le> 1" for x
    using clamp_bounds[of "0.05" "0.9" x] by simp
  from True b have eq: "lipState (updateLoop props timestamp samples s) =
     fst (composePose props timestamp
       (clamp (audioRms (getByteTimeDomainData samples byteArray) * 4 +
               mouthEnergy (emotion props) * 0.35) 0.05 1)
       (clamp (audioRms (getByteTimeDomainData samples byteArray) * 2.8 + 0.25) 0.05 0.9)
       (randomRef s))"
    by (intro lipState_updateLoop_audio) simp_all
  have "poseInRange (lipState (updateLoop props timestamp samples s))"
    unfolding eq using assms(1) m w by (intro composePose_ranges) simp_all
  then show ?thesis by (rule disjI2)
next
  case False
  let ?v = "sampleViseme (visemeTimelineRef s) ((timestamp - startTimeRef s) / 1000)"
  have "0 \<le> fst ?v \<and> fst ?v \<le> 1 \<and> 0 \<le> snd ?v \<and> snd ?v \<le> 1"
    using assms(2) by (rule sampleViseme_range) simp_all
  then have "poseInRange (fst (composePose props timestamp (fst ?v) (snd ?v) (randomRef s)))"
    using assms(1) by (simp add: composePose_ranges)
  then show ?thesis by (simp add: lipState_updateLoop_text[OF False])
qed

theorem updateLoop_pose_ranges_witness:
  "poseInRange (lipState (updateLoop exampleProps 16 (replicate 1024 0) audioSession)) \<and>
   (lipState (updateLoop exampleProps 16 [] textSession) = lipState textSession \<or>
    poseInRange (lipState (updateLoop exampleProps 16 [] textSession)))"
proof -
  have e: "emotionInRange (emotion exampleProps)"
    by (simp add: emotionInRange_def exampleProps_def)
  have t: "\<forall>f \<in> set (visemeTimelineRef audioSession). frameOk 0 1 f"
    by (simp add: audioSession_eq)
  have a: "audioDataRef audioSession \<noteq> Some []"
    by (simp add: audioSession_eq)
  have "mouthOpen (lipState (updateLoop exampleProps 16 (replicate 1024 0) audioSession)) = 1"
    by (simp add: clippingTick composePose_mouthOpen)
  moreover have "mouthOpen (lipState audioSession) = 0.12" by (simp add: audioSession_eq)
  ultimately have "lipState (updateLoop exampleProps 16 (replicate 1024 0) audioSession)
      \<noteq> lipState audioSession" by auto
  with updateLoop_pose_ranges[OF e t a, of 16 "replicate 1024 0"]
  have 1: "poseInRange (lipState (updateLoop exampleProps 16 (replicate 1024 0) audioSession))"
    by blast
  have b: "audioDataRef textSession \<noteq> Some []" by (simp add: textSession_timeline)
  note 2 = updateLoop_pose_ranges[OF e textSession_frames b, of 16 "[]"]
  from 1 2 show ?thesis by blast
qed

text \<open>
  C2 as stated fails: with every field of the emotion at 1 and a clipping audio buffer
  (all bytes 0, root mean square 1), the tick publishes \<open>eyebrowLift = 1.25\<close> and both hands
  at 1.3 or more.
\<close>

theorem pose_exceeds_unit_range:
  "emotionInRange (emotion exampleProps) \<and>
   eyebrowLift (lipState (updateLoop exampleProps 16 (replicate 1024 0) audioSession)) = 1.25 \<and>
   1.3 \<le> handLeft (lipState (updateLoop exampleProps 16 (replicate 1024 0) audioSession)) \<and>
   1.3 \<le> handRight (lipState (updateLoop exampleProps 16 (replicate 1024 0) audioSession)) \<and>
   \<not> unitMagnitude (lipState (updateLoop exampleProps 16 (replicate 1024 0) audioSession))"
proof -
  let ?p = "lipState (updateLoop exampleProps 16 (replicate 1024 0) audioSession)"
  have e: "emotionInRange (emotion exampleProps)"
    by (simp add: emotionInRange_def exampleProps_def)
  have b: "eyebrowLift ?p = 1.25"
    unfolding clippingTick by (simp add: composePose_eyebrowLift exampleProps_def)
  have l: "1.3 \<le> handLeft ?p"
    unfolding clippingTick using composePose_handLeft[of 1 exampleProps 16 "0.9" 1000000]
    by (simp add: exampleProps_def)
  have r: "1.3 \<le> handRight ?p"
    unfolding clippingTick using composePose_handRight[of 1 exampleProps 16 "0.9" 1000000]
    by (simp add: exampleProps_def)
  from b have "\<not> unitMagnitude ?p" by (simp add: unitMagnitude_def)
  with e b l r show ?thesis by blast
qed

text \<open>
  C3. The code breaks the claim. In text mode \<open>startPreview\<close> cancels the outstanding clock
  and arms the new one in one run (\<open>text_start_single_clock\<close>); in audio mode \<open>cleanupRAF\<close> runs before the \<open>await\<close>s and
  the clock is armed after them. When a second forced start in audio mode is called while
  the first is suspended on \<open>await audio.play()\<close>, neither finds a clock to cancel and both
  arm one: two callbacks are registered, \<open>rafRef\<close> holds only the second handle, each frame
  runs \<open>updateLoop\<close> twice and registers two callbacks again, and \<open>stopPreview\<close> cancels
  one of the two clocks only.
\<close>

theorem two_clocks_after_overlapping_starts:
  "frameCallbacks overlappingStarts = [1, 2] \<and>
   rafRef overlappingStarts = Some 2 \<and>
   frameCallbacks
     (applyEvent exampleProps (AnimationFrame 16 (replicate 1024 0)) overlappingStarts) = [3, 4] \<and>
   frameCallbacks
     (runEvents exampleProps [AnimationFrame 16 (replicate 1024 0), StopPreview]
        overlappingStarts) = [3]"
proof -
  let ?t = "applyEvent exampleProps (AnimationFrame 16 (replicate 1024 0)) overlappingStarts"
  have "runEvents exampleProps [AnimationFrame 16 (replicate 1024 0), StopPreview]
        overlappingStarts = stopPreview ?t"
    by (simp add: runEvents_def) (simp add: applyEvent_def)
  then have "frameCallbacks (runEvents exampleProps [AnimationFrame 16 (replicate 1024 0), StopPreview]
        overlappingStarts) = [3]"
    using overlappingStarts_frame by (simp add: frameCallbacks_stopPreview cleanupRAF_def)
  with overlappingStarts_fields overlappingStarts_frame show ?thesis by blast
qed

text \<open>
  C4. The code breaks the claim, in two ways.
  \<^item> \<open>await startPreview(...)\<close> in \<open>exportVideo\<close> stands in no \<open>try\<close>, unlike the capture of the
    audio track and the conversion. In audio mode \<open>startPreview\<close> awaits \<open>audio.play()\<close>, which
    rejects for a file the browser cannot decode, and \<open>loadAudioFile\<close> sets \<open>hasAudioLoaded\<close>
    for any file. Then the promise of \<open>exportVideo\<close> is rejected: no clip is returned, the
    timer is never set, and the recorder that was started goes on recording, whatever
    happens on the page afterwards.
  \<^item> \<open>exportResolveRef\<close> holds one resolver. When \<open>exportVideo\<close> is called again while a first
    call waits on its timer (the page allows it while \<open>isSpeaking\<close> is false, as it stays when
    \<open>startPreview\<close> returns early), the resolver of the first call is overwritten. The
    \<open>shutdownPlayback\<close> of the first call resolves the promise of the second, and the first
    call waits in \<open>await exportPromise\<close> for ever, whatever happens on the page afterwards.
    The second call does return the raw webm clip when the conversion fails.

  A call that reaches its timer while its resolver is still stored, or its promise resolved,
  does what the claim says (\<open>exportVideoFinish_returns\<close>).
\<close>

theorem exportVideo_rejects_or_hangs:
  "exportCalls rejectedExport =
     [\<lparr>exportPromise = Some 0, recorder = Some Recording, stage = Thrown\<rparr>] \<and>
   exportResolveRef rejectedExport = Some 0 \<and>
   exportCalls (runEvents props es rejectedExport) ! 0 =
     \<lparr>exportPromise = Some 0, recorder = Some Recording, stage = Thrown\<rparr> \<and>
   exportCalls overlappingExports =
     [\<lparr>exportPromise = Some 0, recorder = Some Inactive, stage = AwaitExportPromise\<rparr>,
      \<lparr>exportPromise = Some 1, recorder = Some Inactive,
        stage = Returned (Some (Blob [[1, 2, 3]] ''video/webm''))\<rparr>] \<and>
   exportCalls (runEvents props' es' overlappingExports) ! 0 =
     \<lparr>exportPromise = Some 0, recorder = Some Inactive, stage = AwaitExportPromise\<rparr>"
proof -
  let ?thrown = "\<lparr>exportPromise = Some 0, recorder = Some Recording, stage = Thrown\<rparr>"
  let ?stuck = "\<lparr>exportPromise = Some 0, recorder = Some Inactive, stage = AwaitExportPromise\<rparr>"
  have "callIs 0 ?thrown rejectedExport"
    using rejectedExport_fields by (simp add: callIs_def)
  then have "callIs 0 ?thrown (runEvents props es rejectedExport)"
    by (rule callIs_runEvents[rotated]) simp
  then have a: "exportCalls (runEvents props es rejectedExport) ! 0 = ?thrown"
    by (simp add: callIs_def)
  have "callIs 0 ?stuck overlappingExports"
    using overlappingExports_fields by (simp add: callIs_def)
  then have "callIs 0 ?stuck (runEvents props' es' overlappingExports)"
    by (rule callIs_runEvents[rotated]) simp
  then have b: "exportCalls (runEvents props' es' overlappingExports) ! 0 = ?stuck"
    by (simp add: callIs_def)
  from a b rejectedExport_fields overlappingExports_fields show ?thesis by blast
qed

text \<open>
  C5, as amended. When a session is playing (\<open>isSpeaking\<close>) and \<open>forceRestart\<close> is not set,
  \<open>startPreview\<close> returns at its guard without suspending, and the engine is as before but for
  two fields, which are written before the guard: \<open>modeRef\<close> is the requested mode, and,
  unless \<open>fromExport\<close> is set, the channels \<open>mouthOpen\<close>, \<open>mouthWidth\<close>, \<open>handLeft\<close>,
  \<open>handRight\<close> and \<open>bodySway\<close> of the pose are reset. The start timestamp, the timeline, the
  clock registration and every other field are unchanged.
\<close>

theorem startPreview_while_speaking:
  assumes "isSpeaking s" and "\<not> forceRestart options"
  shows "startPreview props options now s =
           (s\<lparr>modeRef := (case sourceMode options of None \<Rightarrow> modeRef s | Some m \<Rightarrow> m),
              lipState := (if fromExport options then lipState s
                           else (lipState s)\<lparr>mouthOpen := 0.12, mouthWidth := 0.2, handLeft := 0,
                                              handRight := 0, bodySway := 0\<rparr>)\<rparr>,
            None)"
  using assms by (rule startPreview_speaking)

theorem startPreview_while_speaking_witness:
  "startPreview exampleProps textStart 20 clippedSession =
     (clippedSession\<lparr>modeRef := TextMode,
        lipState := (lipState clippedSession)\<lparr>mouthOpen := 0.12, mouthWidth := 0.2, handLeft := 0,
                                               handRight := 0, bodySway := 0\<rparr>\<rparr>,
      None)"
  using startPreview_while_speaking[of clippedSession textStart exampleProps 20] clippedSession_fields
  by (simp add: textStart_def)

text \<open>
  C5 as stated fails: on the engine playing audio, after a tick, a call of \<open>startPreview\<close> in
  text mode without \<open>forceRestart\<close> changes the mode from audio to text and \<open>mouthOpen\<close>
  from 1 to 0.12.
\<close>

theorem startPreview_while_speaking_changes_state:
  "isSpeaking clippedSession \<and> \<not> forceRestart textStart \<and>
   modeRef clippedSession = AudioMode \<and>
   modeRef (fst (startPreview exampleProps textStart 20 clippedSession)) = TextMode \<and>
   mouthOpen (lipState clippedSession) = 1 \<and>
   mouthOpen (lipState (fst (startPreview exampleProps textStart 20 clippedSession))) = 0.12 \<and>
   fst (startPreview exampleProps textStart 20 clippedSession) \<noteq> clippedSession"
proof -
  note f = clippedSession_fields
  have n: "\<not> forceRestart textStart" by (simp add: textStart_def)
  have e: "fst (startPreview exampleProps textStart 20 clippedSession) =
     clippedSession\<lparr>modeRef := TextMode,
        lipState := (lipState clippedSession)\<lparr>mouthOpen := 0.12, mouthWidth := 0.2, handLeft := 0,
                                               handRight := 0, bodySway := 0\<rparr>\<rparr>"
    using startPreview_speaking[of clippedSession textStart exampleProps 20] f
    by (simp add: textStart_def)
  have m: "modeRef (fst (startPreview exampleProps textStart 20 clippedSession)) = TextMode"
    unfolding e by simp
  have p: "mouthOpen (lipState (fst (startPreview exampleProps textStart 20 clippedSession))) = 0.12"
    unfolding e by simp
  from m f have d: "fst (startPreview exampleProps textStart 20 clippedSession) \<noteq> clippedSession"
    by auto
  from f n m p d show ?thesis by blast
qed

text \<open>
  C6, as amended. When \<open>startPreview\<close> is called in audio mode and no audio is loaded or no
  analyser can be attached (no window, or no audio element), the call returns without
  suspending: no clock is armed (no callback is registered, no handle is taken), the audio
  element is not touched, and \<open>isSpeaking\<close>, the timeline, the speech queue and the utterance
  are unchanged. It does write what precedes the check: \<open>modeRef\<close> is the audio mode, the
  five transient channels of the pose are reset unless \<open>fromExport\<close> is set, and, unless the
  call returns at the guard of C5, the outstanding clock is cancelled by \<open>cleanupRAF\<close> and
  the start timestamp is \<open>now\<close>.
\<close>

theorem startPreview_audio_refused:
  assumes "(case sourceMode options of None \<Rightarrow> modeRef s | Some m \<Rightarrow> m) = AudioMode"
    and "\<not> hasAudioLoaded s \<or> \<not> hasWindow s \<or> audioRef s = None"
  shows "let s' = fst (startPreview props options now s) in
     snd (startPreview props options now s) = None \<and>
     suspendedCalls s' = suspendedCalls s \<and>
     set (frameCallbacks s') \<subseteq> set (frameCallbacks s) \<and>
     nextFrameId s' = nextFrameId s \<and>
     audioRef s' = audioRef s \<and>
     isSpeaking s' = isSpeaking s \<and>
     visemeTimelineRef s' = visemeTimelineRef s \<and>
     visemeDurationRef s' = visemeDurationRef s \<and>
     speechQueue s' = speechQueue s \<and>
     ttsUtteranceRef s' = ttsUtteranceRef s \<and>
     modeRef s' = AudioMode \<and>
     lipState s' =
       (if fromExport options then lipState s
        else (lipState s)\<lparr>mouthOpen := 0.12, mouthWidth := 0.2, handLeft := 0, handRight := 0,
                           bodySway := 0\<rparr>) \<and>
     startTimeRef s' = (if \<not> forceRestart options \<and> isSpeaking s then startTimeRef s else now) \<and>
     rafRef s' = (if \<not> forceRestart options \<and> isSpeaking s then rafRef s else rafRef (cleanupRAF s)) \<and>
     frameCallbacks s' =
       (if \<not> forceRestart options \<and> isSpeaking s then frameCallbacks s
        else frameCallbacks (cleanupRAF s))"
proof -
  let ?s2 = "if fromExport options then s\<lparr>modeRef := AudioMode\<rparr>
             else resetLipState (s\<lparr>modeRef := AudioMode\<rparr>)"
  have c: "rafRef (cleanupRAF ?s2) = rafRef (cleanupRAF s) \<and>
           frameCallbacks (cleanupRAF ?s2) = frameCallbacks (cleanupRAF s)"
    by (simp add: cleanupRAF_def resetLipState_def split: option.splits)
  have sub: "set (frameCallbacks (cleanupRAF s)) \<subseteq> set (frameCallbacks s)"
    using cleanupRAF_frame[of s] by blast
  show ?thesis
    unfolding Let_def startPreview_audio_result[OF assms]
    using c sub
    by (simp add: ensureAnalyser_frame cleanupRAF_frame resetLipState_def)
qed

theorem startPreview_audio_refused_witness:
  "snd (startPreview exampleProps audioStart 1000 (initialEngine exampleProps True True True)) = None \<and>
   frameCallbacks (fst (startPreview exampleProps audioStart 1000
      (initialEngine exampleProps True True True))) = [] \<and>
   isSpeaking (fst (startPreview exampleProps audioStart 1000
      (initialEngine exampleProps True True True))) = False \<and>
   modeRef (fst (startPreview exampleProps audioStart 1000
      (initialEngine exampleProps True True True))) = AudioMode \<and>
   startTimeRef (fst (startPreview exampleProps audioStart 1000
      (initialEngine exampleProps True True True))) = 1000"
  using startPreview_audio_refused
    [where options = audioStart and s = "initialEngine exampleProps True True True"
       and props = exampleProps and now = 1000]
  by (simp add: Let_def audioStart_def initialEngine_def cleanupRAF_def)

text \<open>
  C6 as stated fails: with no audio loaded, a call in audio mode at time 1000 on the fresh
  engine moves the start timestamp from 0 to 1000 and \<open>mouthOpen\<close> from 0.1 to 0.12; and a
  forced call on the engine speaking a script cancels the clock of that session, which goes
  on speaking.
\<close>

theorem startPreview_audio_refused_changes_state:
  "\<not> hasAudioLoaded (initialEngine exampleProps True True True) \<and>
   startTimeRef (initialEngine exampleProps True True True) = 0 \<and>
   startTimeRef (fst (startPreview exampleProps audioStart 1000
      (initialEngine exampleProps True True True))) = 1000 \<and>
   mouthOpen (lipState (initialEngine exampleProps True True True)) = 0.1 \<and>
   mouthOpen (lipState (fst (startPreview exampleProps audioStart 1000
      (initialEngine exampleProps True True True)))) = 0.12 \<and>
   \<not> hasAudioLoaded textSession \<and> isSpeaking textSession \<and>
   frameCallbacks textSession = [1] \<and>
   frameCallbacks (fst (startPreview exampleProps audioRestart 1000 textSession)) = [] \<and>
   isSpeaking (fst (startPreview exampleProps audioRestart 1000 textSession))"
proof -
  let ?s0 = "initialEngine exampleProps True True True"
  have a: "\<not> hasAudioLoaded ?s0 \<and> startTimeRef ?s0 = 0 \<and> mouthOpen (lipState ?s0) = 0.1"
    by (simp add: initialEngine_def initialLipState_def)
  have b: "startTimeRef (fst (startPreview exampleProps audioStart 1000 ?s0)) = 1000 \<and>
           mouthOpen (lipState (fst (startPreview exampleProps audioStart 1000 ?s0))) = 0.12"
    by (simp add: audioStart_def engine_defs Let_def)
  note t = textSession_fields
  have "(case sourceMode audioRestart of None \<Rightarrow> modeRef textSession | Some m \<Rightarrow> m) = AudioMode"
    by (simp add: audioRestart_def)
  moreover from t have "\<not> hasAudioLoaded textSession \<or> \<not> hasWindow textSession \<or>
      audioRef textSession = None" by simp
  ultimately have r: "startPreview exampleProps audioRestart 1000 textSession =
     (snd (ensureAnalyser
        ((cleanupRAF (resetLipState (textSession\<lparr>modeRef := AudioMode\<rparr>)))\<lparr>startTimeRef := 1000\<rparr>)),
      None)"
    by (simp add: startPreview_audio_result audioRestart_def)
  have c: "frameCallbacks (fst (startPreview exampleProps audioRestart 1000 textSession)) = [] \<and>
           isSpeaking (fst (startPreview exampleProps audioRestart 1000 textSession))"
    unfolding r using t
    by (simp add: ensureAnalyser_frame cleanupRAF_def resetLipState_def)
  from a b t c show ?thesis by blast
qed

text \<open>
  C7. For every text the timeline has at least one frame and lasts at least 2 seconds. A text
  of white space only (the empty text included) has no word. With no word the timeline is the
  fallback: 2.5 seconds, 150 frames at the times \<open>k / 60\<close>, each an idle mouth (mouth in
  \<open>[0.2, 0.35)\<close>, width in \<open>[0.3, 0.45)\<close>). With words the duration is
  \<open>max(word_count * word_duration + 1.2, 2)\<close>.
\<close>

theorem buildVisemeTimeline_nonempty:
  "1 \<le> length (frames (buildVisemeTimeline txt e sd)) \<and>
   2 \<le> duration (buildVisemeTimeline txt e sd) \<and>
   ((\<forall>c \<in> set txt. isWhiteSpace c) \<longrightarrow> getWords txt = []) \<and>
   (getWords txt = [] \<longrightarrow>
      duration (buildVisemeTimeline txt e sd) = 2.5 \<and>
      length (frames (buildVisemeTimeline txt e sd)) = 150 \<and>
      map time (frames (buildVisemeTimeline txt e sd)) = map (\<lambda>k. real k / 60) [0..<150] \<and>
      (\<forall>f \<in> set (frames (buildVisemeTimeline txt e sd)).
          0.2 \<le> mouth f \<and> mouth f < 0.35 \<and> 0.3 \<le> width f \<and> width f < 0.45)) \<and>
   (getWords txt \<noteq> [] \<longrightarrow>
      duration (buildVisemeTimeline txt e sd) =
        max (real (length (getWords txt)) * estimateWordDuration e + 1.2) 2)"
proof -
  let ?tl = "buildVisemeTimeline txt e sd"
  have a: "1 \<le> length (frames ?tl)" using frames_ge_120[of "txt" e sd] by simp
  have b: "2 \<le> duration ?tl" by (rule duration_ge_2)
  have c: "(\<forall>c \<in> set txt. isWhiteSpace c) \<longrightarrow> getWords txt = []"
    using getWords_whitespace by blast
  have d: "duration ?tl = 2.5" if "getWords txt = []"
    using that by (simp add: buildVisemeTimeline_def)
  have f: "length (frames ?tl) = 150" if "getWords txt = []"
    by (simp add: length_frames d[OF that])
  have g: "map time (frames ?tl) = map (\<lambda>k. real k / 60) [0..<150]" if "getWords txt = []"
    by (simp add: times_frames d[OF that])
  have idle: "\<forall>f \<in> set (fallbackLoop 0 n g0 []).
      0.2 \<le> mouth f \<and> mouth f < 0.35 \<and> 0.3 \<le> width f \<and> width f < 0.45" for n g0
    by (rule fallbackLoop_idle) simp
  have h: "\<forall>f \<in> set (frames ?tl).
      0.2 \<le> mouth f \<and> mouth f < 0.35 \<and> 0.3 \<le> width f \<and> width f < 0.45" if "getWords txt = []"
    using that idle by (simp add: buildVisemeTimeline_def Let_def)
  have i: "duration ?tl = max (real (length (getWords txt)) * estimateWordDuration e + 1.2) 2"
    if "getWords txt \<noteq> []"
    using that by (simp add: buildVisemeTimeline_def Let_def split_beta)
  show ?thesis using a b c d f g h i by blast
qed

theorem buildVisemeTimeline_nonempty_witness:
  "duration (buildVisemeTimeline (js '' '')
      \<lparr>mouthEnergy = 0.5, handAmplitude = 0.5, gazeIntensity = 0.5, browLift = 0.5\<rparr> 0) = 2.5 \<and>
   length (frames (buildVisemeTimeline (js '' '')
      \<lparr>mouthEnergy = 0.5, handAmplitude = 0.5, gazeIntensity = 0.5, browLift = 0.5\<rparr> 0)) = 150 \<and>
   duration (buildVisemeTimeline (js ''Hey there'')
      \<lparr>mouthEnergy = 0.5, handAmplitude = 0.5, gazeIntensity = 0.5, browLift = 0.5\<rparr> 0) =
     max (real (length (getWords (js ''Hey there''))) * estimateWordDuration
       \<lparr>mouthEnergy = 0.5, handAmplitude = 0.5, gazeIntensity = 0.5, browLift = 0.5\<rparr> + 1.2) 2"
proof -
  let ?e = "\<lparr>mouthEnergy = 0.5, handAmplitude = 0.5, gazeIntensity = 0.5, browLift = 0.5\<rparr>"
  note blank = buildVisemeTimeline_nonempty[of "js '' ''" ?e 0]
  note hey = buildVisemeTimeline_nonempty[of "js ''Hey there''" ?e 0]
  from blank isWhiteSpace_blank have w: "getWords (js '' '') = []" by blast
  have h: "getWords (js ''Hey there'') \<noteq> []" by (simp add: getWords_hey)
  from blank w hey h show ?thesis by blast
qed

text \<open>
  C8. The sampler holds the last frame: for a frame list that is not empty (ordered by time
  or not) and an elapsed time at or after the time of its last frame, \<open>sampleViseme\<close>
  returns the mouth and width of the last frame; so it does on a synthesized timeline for
  every time at or after its duration, the last frame lying before the duration. For the empty
  list it returns the idle value \<open>(0.1, 0.3)\<close>. The function only reads the list, and a tick
  of \<open>updateLoop\<close>, its only caller, leaves the timeline of the engine as it was.
\<close>

theorem sampleViseme_holds_last_frame:
  "(timeline \<noteq> [] \<and> time (last timeline) \<le> elapsed \<longrightarrow>
      sampleViseme timeline elapsed = (mouth (last timeline), width (last timeline))) \<and>
   sampleViseme [] elapsed = (0.1, 0.3) \<and>
   (duration (buildVisemeTimeline txt e sd) \<le> t \<longrightarrow>
      frames (buildVisemeTimeline txt e sd) \<noteq> [] \<and>
      time (last (frames (buildVisemeTimeline txt e sd))) \<le> t \<and>
      sampleViseme (frames (buildVisemeTimeline txt e sd)) t =
        (mouth (last (frames (buildVisemeTimeline txt e sd))),
         width (last (frames (buildVisemeTimeline txt e sd))))) \<and>
   visemeTimelineRef (updateLoop props timestamp samples s) = visemeTimelineRef s"
proof -
  let ?fs = "frames (buildVisemeTimeline txt e sd)"
  have a: "sampleViseme [] elapsed = (0.1, 0.3)" by (simp add: sampleViseme_def)
  have b: "?fs \<noteq> [] \<and> time (last ?fs) \<le> t \<and> sampleViseme ?fs t = (mouth (last ?fs), width (last ?fs))"
    if "duration (buildVisemeTimeline txt e sd) \<le> t"
  proof -
    from last_frame_time[of "txt" e sd] that have "?fs \<noteq> []" "time (last ?fs) \<le> t" by simp_all
    then show ?thesis by (simp add: sampleViseme_hold)
  qed
  show ?thesis using a b sampleViseme_hold updateLoop_visemeTimelineRef by blast
qed

theorem sampleViseme_holds_last_frame_witness:
  "sampleViseme [\<lparr>time = 0, mouth = 0.2, width = 0.3\<rparr>, \<lparr>time = 1, mouth = 0.6, width = 0.5\<rparr>] 3 =
     (0.6, 0.5) \<and>
   sampleViseme (frames (buildVisemeTimeline (js ''Hey there'')
      \<lparr>mouthEnergy = 0.5, handAmplitude = 0, gazeIntensity = 0.5, browLift = 0.5\<rparr> 0)) 2.04 =
     (mouth (last (frames (buildVisemeTimeline (js ''Hey there'')
        \<lparr>mouthEnergy = 0.5, handAmplitude = 0, gazeIntensity = 0.5, browLift = 0.5\<rparr> 0))),
      width (last (frames (buildVisemeTimeline (js ''Hey there'')
        \<lparr>mouthEnergy = 0.5, handAmplitude = 0, gazeIntensity = 0.5, browLift = 0.5\<rparr> 0))))"
proof -
  have d: "duration (buildVisemeTimeline (js ''Hey there'')
      \<lparr>mouthEnergy = 0.5, handAmplitude = 0, gazeIntensity = 0.5, browLift = 0.5\<rparr> 0) = 2.04"
    by (rule duration_hey_there) simp_all
  show ?thesis
    using sampleViseme_holds_last_frame
      [of "[\<lparr>time = 0, mouth = 0.2, width = 0.3\<rparr>, \<lparr>time = 1, mouth = 0.6, width = 0.5\<rparr>]" 3
          "js ''Hey there''"
          "\<lparr>mouthEnergy = 0.5, handAmplitude = 0, gazeIntensity = 0.5, browLift = 0.5\<rparr>" 0 "2.04"]
      d
    by simp
qed

text \<open>
  C9. The duration of a word is \<open>clamp(0.42 - (mouthEnergy - 0.5) * 0.2 - handAmplitude * 0.05,
  0.28, 0.6)\<close>; for the text "Hey there" with \<open>mouthEnergy = 0.5\<close> and \<open>handAmplitude = 0\<close>
  it is 0.42, the duration of the timeline is \<open>max(2 * 0.42 + 1.2, 2) = 2.04\<close>, and there are
  \<open>floor(2.04 * 60) = 122\<close> frames.
\<close>

theorem wordDuration_hey_there:
  "estimateWordDuration e =
     clamp (0.42 - (mouthEnergy e - 0.5) * 0.2 - handAmplitude e * 0.05) 0.28 0.6 \<and>
   (mouthEnergy e = 0.5 \<and> handAmplitude e = 0 \<longrightarrow>
      estimateWordDuration e = 0.42 \<and>
      duration (buildVisemeTimeline (js ''Hey there'') e sd) = 2.04 \<and>
      duration (buildVisemeTimeline (js ''Hey there'') e sd) = max (2 * 0.42 + 1.2) 2 \<and>
      length (frames (buildVisemeTimeline (js ''Hey there'') e sd)) = 122 \<and>
      \<lfloor>(2.04 :: real) * 60\<rfloor> = 122)"
proof -
  have a: "estimateWordDuration e =
     clamp (0.42 - (mouthEnergy e - 0.5) * 0.2 - handAmplitude e * 0.05) 0.28 0.6"
    by (simp add: estimateWordDuration_def)
  have b: "estimateWordDuration e = 0.42 \<and>
      duration (buildVisemeTimeline (js ''Hey there'') e sd) = 2.04 \<and>
      duration (buildVisemeTimeline (js ''Hey there'') e sd) = max (2 * 0.42 + 1.2) 2 \<and>
      length (frames (buildVisemeTimeline (js ''Hey there'') e sd)) = 122 \<and>
      \<lfloor>(2.04 :: real) * 60\<rfloor> = 122"
    if h: "mouthEnergy e = 0.5 \<and> handAmplitude e = 0"
  proof -
    from h have h1: "mouthEnergy e = 0.5" and h2: "handAmplitude e = 0" by simp_all
    note dur = duration_hey_there[OF h1 h2, of sd]
    have "max (2 * 0.42 + 1.2) 2 = (2.04 :: real)" by simp
    with dur have m: "duration (buildVisemeTimeline (js ''Hey there'') e sd) = max (2 * 0.42 + 1.2) 2"
      by simp
    have n: "length (frames (buildVisemeTimeline (js ''Hey there'') e sd)) = 122"
      by (simp add: length_frames dur)
    have f: "\<lfloor>(2.04 :: real) * 60\<rfloor> = 122" by simp
    from estimateWordDuration_neutral[OF h1 h2] dur m n f show ?thesis by blast
  qed
  from a b show ?thesis by blast
qed

theorem wordDuration_hey_there_witness:
  "estimateWordDuration \<lparr>mouthEnergy = 0.5, handAmplitude = 0, gazeIntensity = 0.5, browLift = 0.5\<rparr> = 0.42 \<and>
   duration (buildVisemeTimeline (js ''Hey there'')
      \<lparr>mouthEnergy = 0.5, handAmplitude = 0, gazeIntensity = 0.5, browLift = 0.5\<rparr> 0) = 2.04 \<and>
   length (frames (buildVisemeTimeline (js ''Hey there'')
      \<lparr>mouthEnergy = 0.5, handAmplitude = 0, gazeIntensity = 0.5, browLift = 0.5\<rparr> 0)) = 122"
  using wordDuration_hey_there
    [of "\<lparr>mouthEnergy = 0.5, handAmplitude = 0, gazeIntensity = 0.5, browLift = 0.5\<rparr>" 0]
  by simp

text \<open>
  C10. Through \<open>startPreview\<close> in text mode, when speech synthesis is supported and the call
  is not stopped by the guard of C5, the text given to the synthesizer and to the utterance
  is \<open>script.trim()\<close>, or the phrase "Hello, the stage is ready." when that is empty, as it
  is for a script of white space only. That text always has a word, so the timeline stored
  is never the fallback of the empty word list: its duration is
  \<open>max(word_count * word_duration + 1.2, 2)\<close>.
\<close>

theorem startPreview_text_never_empty:
  assumes "ttsSupported s"
    and "(case sourceMode options of None \<Rightarrow> modeRef s | Some m \<Rightarrow> m) = TextMode"
    and "forceRestart options \<or> \<not> isSpeaking s"
  shows "let txt = previewText (script props);
             s' = fst (startPreview props options now s)
         in getWords txt \<noteq> [] \<and>
            ((\<forall>c \<in> set (script props). isWhiteSpace c) \<longrightarrow> txt = js ''Hello, the stage is ready.'') \<and>
            (trim (script props) \<noteq> [] \<longrightarrow> txt = trim (script props)) \<and>
            visemeTimelineRef s' = frames (buildVisemeTimeline txt (emotion props) (seed props)) \<and>
            visemeDurationRef s' = duration (buildVisemeTimeline txt (emotion props) (seed props)) \<and>
            visemeDurationRef s' =
              max (real (length (getWords txt)) * estimateWordDuration (emotion props) + 1.2) 2 \<and>
            (\<exists>u. ttsUtteranceRef s' = Some u \<and> speechQueue s' = [u] \<and> utteranceText u = txt)"
proof -
  let ?txt = "previewText (script props)"
  let ?s4 = "(cleanupRAF (if fromExport options then s\<lparr>modeRef := TextMode\<rparr>
      else resetLipState (s\<lparr>modeRef := TextMode\<rparr>)))\<lparr>startTimeRef := now\<rparr>"
  have w: "getWords ?txt \<noteq> []" by (rule getWords_previewText)
  have b: "(\<forall>c \<in> set (script props). isWhiteSpace c) \<longrightarrow> ?txt = js ''Hello, the stage is ready.''"
    using previewText_blank by blast
  have t: "trim (script props) \<noteq> [] \<longrightarrow> ?txt = trim (script props)"
    by (simp add: previewText_def)
  have r: "fst (startPreview props options now s) = startPreviewText props ?s4"
    by (simp add: startPreview_text_result[OF assms(2,3)])
  have "ttsSupported ?s4" using assms(1) by (simp only: ttsSupported_prepared)
  note st = startPreviewText_stores[OF this, of props]
  have d: "duration (buildVisemeTimeline ?txt (emotion props) (seed props)) =
      max (real (length (getWords ?txt)) * estimateWordDuration (emotion props) + 1.2) 2"
    using w by (simp add: buildVisemeTimeline_def Let_def split_beta)
  show ?thesis unfolding Let_def r using w b t st d by simp
qed

theorem startPreview_text_never_empty_witness:
  "visemeTimelineRef (fst (startPreview (exampleProps\<lparr>script := js '' ''\<rparr>) textStart 0
      (initialEngine exampleProps True True True))) =
     frames (buildVisemeTimeline (js ''Hello, the stage is ready.'')
       (emotion exampleProps) (seed exampleProps)) \<and>
   getWords (js ''Hello, the stage is ready.'') \<noteq> []"
proof -
  let ?s = "initialEngine exampleProps True True True"
  let ?p = "exampleProps\<lparr>script := js '' ''\<rparr>"
  have a: "ttsSupported ?s" by (simp add: initialEngine_def)
  have b: "(case sourceMode textStart of None \<Rightarrow> modeRef ?s | Some m \<Rightarrow> m) = TextMode"
    by (simp add: textStart_def)
  have c: "forceRestart textStart \<or> \<not> isSpeaking ?s" by (simp add: initialEngine_def)
  have d: "\<forall>c \<in> set (script ?p). isWhiteSpace c" using isWhiteSpace_blank by simp
  from startPreview_text_never_empty[OF a b c, of ?p 0] d show ?thesis
    by (auto simp: Let_def)
qed

end
